theory Spec2Isabelle
  imports Main "HOL-Library.AList"
begin

section \<open>Python values, exceptions and containers\<close>

text \<open>
  The document tree is the JSON that Pandoc prints, loaded with \<^verbatim>\<open>json.loads\<close>: a node is a
  Python dict with the keys \<^verbatim>\<open>'t'\<close> (the kind) and, for most kinds, \<^verbatim>\<open>'c'\<close> (the payload).
  A dict is an association list in insertion order with distinct keys.
\<close>

datatype pyval =
    PNone
  | PBool bool
  | PInt int
  | PStr string
  | PList "pyval list"
  | PDict "(string \<times> pyval) list"

text \<open>
  The exceptions the modelled code can raise. \<open>Dangling\<close> is not a Python exception: it is the
  result of the store operations at an address that holds no object, which a Python reference
  never is.
\<close>

datatype py_error =
    KeyError
  | IndexError
  | TypeError
  | ValueError
  | AttributeError
  | UnboundLocalError
  | StopIteration
  | NotImplementedError
  | Dangling

type_synonym pydict = "(string \<times> pyval) list"

definition bindE :: "py_error + 'a \<Rightarrow> ('a \<Rightarrow> py_error + 'b) \<Rightarrow> py_error + 'b" where
  "bindE m f = (case m of Inl e \<Rightarrow> Inl e | Inr x \<Rightarrow> f x)"

text \<open>\<^verbatim>\<open>d[k]\<close> on a dict.\<close>

definition dict_getitem :: "pydict \<Rightarrow> string \<Rightarrow> py_error + pyval" where
  "dict_getitem d k = (case map_of d k of None \<Rightarrow> Inl KeyError | Some v \<Rightarrow> Inr v)"

text \<open>\<^verbatim>\<open>d[k] = v\<close> on a dict: an existing key keeps its place, a new key goes last.\<close>

definition dict_setitem :: "pydict \<Rightarrow> string \<Rightarrow> pyval \<Rightarrow> pydict" where
  "dict_setitem d k v = AList.update k v d"

text \<open>\<^verbatim>\<open>v[i]\<close> with a constant index \<open>i \<ge> 0\<close>: lists and strings are indexable, a dict has no
  integer key here (its keys are strings), everything else is not subscriptable.\<close>

fun py_index :: "pyval \<Rightarrow> nat \<Rightarrow> py_error + pyval" where
  "py_index (PList xs) i = (if i < length xs then Inr (xs ! i) else Inl IndexError)"
| "py_index (PStr s) i = (if i < length s then Inr (PStr [s ! i]) else Inl IndexError)"
| "py_index (PDict d) i = Inl KeyError"
| "py_index v i = Inl TypeError"

text \<open>\<^verbatim>\<open>a, b = v\<close>: \<open>v\<close> must be an iterable of exactly two items (a dict iterates its keys).\<close>

fun unpack2 :: "pyval \<Rightarrow> py_error + (pyval \<times> pyval)" where
  "unpack2 (PList [a, b]) = Inr (a, b)"
| "unpack2 (PList xs) = Inl ValueError"
| "unpack2 (PStr [a, b]) = Inr (PStr [a], PStr [b])"
| "unpack2 (PStr s) = Inl ValueError"
| "unpack2 (PDict [(j, a), (k, b)]) = Inr (PStr j, PStr k)"
| "unpack2 (PDict d) = Inl ValueError"
| "unpack2 v = Inl TypeError"

text \<open>What \<^verbatim>\<open>for x in v\<close> iterates over.\<close>

definition py_iter :: "pyval \<Rightarrow> py_error + pyval list" where
  "py_iter v = (case v of PList xs \<Rightarrow> Inr xs | PStr s \<Rightarrow> Inr (map (\<lambda>c. PStr [c]) s)
                        | PDict d \<Rightarrow> Inr (map (\<lambda>(k, x). PStr k) d) | _ \<Rightarrow> Inl TypeError)"

text \<open>\<^verbatim>\<open>table[v]\<close> for a dict \<open>table\<close> with string keys: a list or dict key is unhashable.\<close>

fun table_getitem :: "(string \<times> string) list \<Rightarrow> pyval \<Rightarrow> py_error + string" where
  "table_getitem table (PStr s) = (case map_of table s of None \<Rightarrow> Inl KeyError | Some t \<Rightarrow> Inr t)"
| "table_getitem table (PList xs) = Inl TypeError"
| "table_getitem table (PDict d) = Inl TypeError"
| "table_getitem table v = Inl KeyError"

section \<open>Freeze and thaw of raw nodes\<close>

text \<open>
  \<^verbatim>\<open>PandocConverter._freeze_raw_node\<close> and \<^verbatim>\<open>PandocConverter._thaw_raw_node\<close> assign to the
  keys \<^verbatim>\<open>'t'\<close> and \<^verbatim>\<open>'c'\<close> of the node they are given. \<open>freeze_node\<close> and \<open>thaw_node\<close> give
  the new contents of that dict; the store versions below write them back at the node's address.
\<close>

definition freeze_translation :: "(string \<times> string) list" where
  "freeze_translation = [(''RawBlock'', ''CodeBlock''), (''RawInline'', ''Code'')]"

definition thaw_translation :: "(string \<times> string) list" where
  "thaw_translation = [(''CodeBlock'', ''RawBlock''), (''Code'', ''RawInline'')]"

definition freeze_node :: "pydict \<Rightarrow> py_error + pydict" where
  "freeze_node node =
     bindE (dict_getitem node ''t'') (\<lambda>t.
     bindE (table_getitem freeze_translation t) (\<lambda>t'.
     let node1 = dict_setitem node ''t'' (PStr t') in
     bindE (dict_getitem node1 ''c'') (\<lambda>c.
     bindE (unpack2 c) (\<lambda>(raw_format, raw_content).
     Inr (dict_setitem node1 ''c''
            (PList [PList [PStr [],
                           PList [PStr ''codebraid--temp''],
                           PList [PList [PStr ''format'', raw_format]]],
                    raw_content]))))))"

definition thaw_node :: "pydict \<Rightarrow> py_error + pydict" where
  "thaw_node node =
     bindE (dict_getitem node ''t'') (\<lambda>t.
     bindE (table_getitem thaw_translation t) (\<lambda>t'.
     let node1 = dict_setitem node ''t'' (PStr t') in
     bindE (dict_getitem node1 ''c'') (\<lambda>c.
     bindE (py_index c 0) (\<lambda>c0.
     bindE (py_index c0 2) (\<lambda>c02.
     bindE (py_index c02 0) (\<lambda>c020.
     bindE (py_index c020 1) (\<lambda>raw_format.
     bindE (dict_getitem node1 ''c'') (\<lambda>c'.
     bindE (py_index c' 1) (\<lambda>raw_content.
     Inr (dict_setitem node1 ''c'' (PList [raw_format, raw_content])))))))))))"

text \<open>
  Node objects live in a store, so that ``the same object'' can be said: a node is named by
  its address, and the transforms change the dict at that address and nothing else.
\<close>

type_synonym node_store = "nat \<Rightarrow> pydict option"

definition freeze_raw_node :: "node_store \<Rightarrow> nat \<Rightarrow> py_error + node_store" where
  "freeze_raw_node st a =
     (case st a of
        None \<Rightarrow> Inl Dangling
      | Some node \<Rightarrow> bindE (freeze_node node) (\<lambda>node'. Inr (st(a \<mapsto> node'))))"

definition thaw_raw_node :: "node_store \<Rightarrow> nat \<Rightarrow> py_error + node_store" where
  "thaw_raw_node st a =
     (case st a of
        None \<Rightarrow> Inl Dangling
      | Some node \<Rightarrow> bindE (thaw_node node) (\<lambda>node'. Inr (st(a \<mapsto> node'))))"

text \<open>
  The test of \<^verbatim>\<open>_postprocess_code_chunks\<close> that selects the nodes to thaw:
  \<^verbatim>\<open>node_type in ('Code', 'CodeBlock') and 'codebraid--temp' in node['c'][0][1]\<close>.
  On a list, \<^verbatim>\<open>in\<close> is membership; on a string it is the substring test.
\<close>

fun is_sublist :: "string \<Rightarrow> string \<Rightarrow> bool" where
  "is_sublist p [] = (p = [])"
| "is_sublist p (x # xs) = (take (length p) (x # xs) = p \<or> is_sublist p xs)"

fun py_contains :: "pyval \<Rightarrow> string \<Rightarrow> py_error + bool" where
  "py_contains (PList xs) s = Inr (PStr s \<in> set xs)"
| "py_contains (PStr t) s = Inr (is_sublist s t)"
| "py_contains (PDict d) s = Inr (s \<in> fst ` set d)"
| "py_contains v s = Inl TypeError"

definition carries_marker :: "pydict \<Rightarrow> py_error + bool" where
  "carries_marker node =
     bindE (dict_getitem node ''t'') (\<lambda>t.
     if t = PStr ''Code'' \<or> t = PStr ''CodeBlock'' then
       bindE (dict_getitem node ''c'') (\<lambda>c.
       bindE (py_index c 0) (\<lambda>c0.
       bindE (py_index c0 1) (\<lambda>classes.
       py_contains classes ''codebraid--temp'')))
     else Inr False)"

section \<open>The tree walker\<close>

text \<open>
  \<^verbatim>\<open>walk_node_list\<close> is a generator; the callers take all of what it yields
  (\<^verbatim>\<open>list(self._walk_ast(...))\<close> or a \<^verbatim>\<open>for\<close> loop over it), so the model returns the list of
  the yielded tuples \<open>(node, parent node, parent list, index, in_note)\<close>, or the exception
  that ends the iteration. \<open>walk_items\<close> is the \<^verbatim>\<open>for index, obj in enumerate(node_list)\<close>
  loop from position \<open>index\<close> on; its last argument is the current value of the local
  variable \<^verbatim>\<open>in_note\<close>, which the \<^verbatim>\<open>Note\<close> branch assigns. \<open>walk_definitions\<close> is the loop
  over the items of a \<^verbatim>\<open>DefinitionList\<close>. The type filter is \<open>None\<close> or the keys of a dict of kind names.
\<close>

type_synonym walk_tuple = "pyval \<times> pyval \<times> pyval \<times> nat \<times> bool"

fun in_type_filter :: "string list option \<Rightarrow> pyval \<Rightarrow> py_error + bool" where
  "in_type_filter None node_type = Inr True"
| "in_type_filter (Some names) (PStr s) = Inr (s \<in> set names)"
| "in_type_filter (Some names) (PList xs) = Inl TypeError"
| "in_type_filter (Some names) (PDict d) = Inl TypeError"
| "in_type_filter (Some names) v = Inr False"

definition plain_in_filter :: "string list option \<Rightarrow> bool" where
  "plain_in_filter type_filter = (case type_filter of None \<Rightarrow> True | Some names \<Rightarrow> ''Plain'' \<in> set names)"

fun appE :: "py_error + 'a list \<Rightarrow> py_error + 'a list \<Rightarrow> py_error + 'a list" where
  "appE (Inl e) r = Inl e"
| "appE (Inr xs) (Inl e) = Inl e"
| "appE (Inr xs) (Inr ys) = Inr (xs @ ys)"

lemma size_map_of: "map_of d k = Some v \<Longrightarrow> size v < size (PDict d)"
  by (induction d) (auto split: if_splits)

lemma size_unpack2: "unpack2 v = Inr (a, b) \<Longrightarrow> size a \<le> size v \<and> size b \<le> size v"
  by (induction v rule: unpack2.induct) auto

function walk_items :: "pyval list \<Rightarrow> nat \<Rightarrow> pyval \<Rightarrow> pyval \<Rightarrow> string list option \<Rightarrow> bool \<Rightarrow> bool
                          \<Rightarrow> py_error + walk_tuple list"
  and walk_node_list :: "pyval \<Rightarrow> pyval \<Rightarrow> string list option \<Rightarrow> bool \<Rightarrow> bool \<Rightarrow> py_error + walk_tuple list"
  and walk_definitions :: "pyval list \<Rightarrow> pyval \<Rightarrow> string list option \<Rightarrow> bool \<Rightarrow> bool
                          \<Rightarrow> py_error + walk_tuple list"
where
  "walk_node_list node_list parent_node type_filter skip_note_contents in_note =
     (case node_list of
        PList xs \<Rightarrow> walk_items xs 0 node_list parent_node type_filter skip_note_contents in_note
      | PStr s \<Rightarrow> Inr []
      | PDict d \<Rightarrow> Inr []
      | _ \<Rightarrow> Inl TypeError)"
| "walk_items [] index node_list parent_node type_filter skip_note_contents in_note = Inr []"
| "walk_items (obj # rest) index node_list parent_node type_filter skip_note_contents in_note =
     (case obj of
        PDict d \<Rightarrow>
          (case map_of d ''t'' of
             None \<Rightarrow> walk_items rest (index + 1) node_list parent_node type_filter skip_note_contents in_note
           | Some node_type \<Rightarrow>
               (case in_type_filter type_filter node_type of
                  Inl e \<Rightarrow> Inl e
                | Inr wanted \<Rightarrow>
                    appE (Inr (if wanted then [(obj, parent_node, node_list, index, in_note)] else []))
                      (case map_of d ''c'' of
                         Some (PList obj_contents) \<Rightarrow>
                           if node_type = PStr ''Note'' then
                             (if skip_note_contents
                              then walk_items rest (index + 1) node_list parent_node type_filter skip_note_contents in_note
                              else appE (walk_items obj_contents 0 (PList obj_contents) obj type_filter skip_note_contents True)
                                     (walk_items rest (index + 1) node_list parent_node type_filter skip_note_contents True))
                           else if node_type \<noteq> PStr ''DefinitionList'' then
                             appE (walk_items obj_contents 0 (PList obj_contents) obj type_filter skip_note_contents in_note)
                               (walk_items rest (index + 1) node_list parent_node type_filter skip_note_contents in_note)
                           else
                             appE (walk_definitions obj_contents obj type_filter skip_note_contents in_note)
                               (walk_items rest (index + 1) node_list parent_node type_filter skip_note_contents in_note)
                       | _ \<Rightarrow> walk_items rest (index + 1) node_list parent_node type_filter skip_note_contents in_note)))
      | PList ys \<Rightarrow>
          appE (walk_items ys 0 (PList ys) parent_node type_filter skip_note_contents in_note)
            (walk_items rest (index + 1) node_list parent_node type_filter skip_note_contents in_note)
      | _ \<Rightarrow> walk_items rest (index + 1) node_list parent_node type_filter skip_note_contents in_note)"
| "walk_definitions [] obj type_filter skip_note_contents in_note = Inr []"
| "walk_definitions (elem # elems) obj type_filter skip_note_contents in_note =
     (case unpack2 elem of
        Inl e \<Rightarrow> Inl e
      | Inr (term, definition) \<Rightarrow>
          (let pseudonode = PDict [(''t'', PStr ''Plain''), (''c'', term), (''codebraid_pseudonode'', PBool True)] in
           appE (Inr (if plain_in_filter type_filter then [(pseudonode, obj, elem, 0, in_note)] else []))
          (appE (walk_node_list term pseudonode type_filter skip_note_contents in_note)
          (appE (walk_node_list definition obj type_filter skip_note_contents in_note)
                (walk_definitions elems obj type_filter skip_note_contents in_note)))))"
  by pat_completeness auto
termination
  apply (relation "measure (\<lambda>x. case x of
            Inl (xs, _) \<Rightarrow> 2 * size_list size xs
          | Inr (Inl (v, _)) \<Rightarrow> 2 * size v + 1
          | Inr (Inr (xs, _)) \<Rightarrow> 2 * size_list size xs)")
  apply (auto dest!: size_map_of size_unpack2)
  done

text \<open>The kind of a yielded node, for reading results.\<close>

definition node_kind :: "pyval \<Rightarrow> pyval" where
  "node_kind obj = (case obj of PDict d \<Rightarrow> (case map_of d ''t'' of Some t \<Rightarrow> t | None \<Rightarrow> PNone) | _ \<Rightarrow> PNone)"

definition kinds_indices_flags :: "py_error + walk_tuple list \<Rightarrow> py_error + (pyval \<times> nat \<times> bool) list" where
  "kinds_indices_flags r = map_sum id (map (\<lambda>(node, parent_node, node_list, index, in_note). (node_kind node, index, in_note))) r"

text \<open>The inlines of a paragraph \<^verbatim>\<open>^[n] `x+1`{.cb.run}\<close>: a note, then inline code after it.\<close>

definition note_then_code :: "pyval" where
  "note_then_code =
     PList [PDict [(''t'', PStr ''Note''),
                   (''c'', PList [PDict [(''t'', PStr ''Para''),
                                         (''c'', PList [PDict [(''t'', PStr ''Str''), (''c'', PStr ''n'')]])]])],
            PDict [(''t'', PStr ''Code''),
                   (''c'', PList [PList [PStr [], PList [PStr ''cb.run''], PList []], PStr ''x+1''])]]"

section \<open>Python strings\<close>

definition dq :: string where
  "dq = [CHR 0x22]"

text \<open>\<^verbatim>\<open>s.replace(' ', '')\<close>, \<^verbatim>\<open>s.split(c)\<close> for a one-character separator, \<^verbatim>\<open>c in s\<close> and
  \<^verbatim>\<open>s.split(c, 1)\<close> for a string that contains \<open>c\<close>, and \<^verbatim>\<open>sep.join(lines)\<close>.\<close>

definition remove_spaces :: "string \<Rightarrow> string" where
  "remove_spaces s = filter (\<lambda>c. c \<noteq> CHR '' '') s"

fun split_char :: "char \<Rightarrow> string \<Rightarrow> string list" where
  "split_char c [] = [[]]"
| "split_char c (x # xs) =
     (if x = c then [] # split_char c xs
      else (case split_char c xs of w # ws \<Rightarrow> (x # w) # ws | [] \<Rightarrow> [[x]]))"

definition split_first :: "char \<Rightarrow> string \<Rightarrow> string \<times> string" where
  "split_first c s = (takeWhile (\<lambda>x. x \<noteq> c) s, tl (dropWhile (\<lambda>x. x \<noteq> c) s))"

fun join :: "string \<Rightarrow> string list \<Rightarrow> string" where
  "join sep [] = []"
| "join sep [l] = l"
| "join sep (l # ls) = l @ sep @ join sep ls"

text \<open>
  \<^verbatim>\<open>s.splitlines()\<close>. A \<open>char\<close> stands for a code point below 256, so the line boundaries
  are \<^verbatim>\<open>\n\<close>, \<^verbatim>\<open>\r\<close>, \<^verbatim>\<open>\r\n\<close>, \<^verbatim>\<open>\v\<close>, \<^verbatim>\<open>\f\<close>, \<^verbatim>\<open>\x1c\<close>, \<^verbatim>\<open>\x1d\<close>, \<^verbatim>\<open>\x1e\<close> and \<^verbatim>\<open>\x85\<close>;
  the two separators beyond that range (U+2028 and U+2029) are not representable. The second
  argument is the line read so far.
\<close>

definition line_boundary :: "char \<Rightarrow> bool" where
  "line_boundary c = (c \<in> set [CHR 0x0A, CHR 0x0B, CHR 0x0C, CHR 0x1C, CHR 0x1D, CHR 0x1E, CHR 0x85])"

fun splitlines_from :: "string \<Rightarrow> string \<Rightarrow> string list" where
  "splitlines_from [] cur = (if cur = [] then [] else [cur])"
| "splitlines_from (c # cs) cur =
     (if c = CHR 0x0D then
        (case cs of
           d # ds \<Rightarrow> if d = CHR 0x0A then cur # splitlines_from ds [] else cur # splitlines_from cs []
         | [] \<Rightarrow> cur # splitlines_from cs [])
      else if line_boundary c then cur # splitlines_from cs []
      else splitlines_from cs (cur @ [c]))"

definition splitlines :: "string \<Rightarrow> string list" where
  "splitlines s = splitlines_from s []"

text \<open>\<^verbatim>\<open>str(n)\<close> for an integer, and \<^verbatim>\<open>str(v)\<close> as \<^verbatim>\<open>'{0}'.format(v)\<close> prints a value. A string
  prints as itself; inside a list or dict it prints as its \<^verbatim>\<open>repr\<close>.\<close>

fun nat_digits :: "nat \<Rightarrow> string" where
  "nat_digits n = (if n < 10 then [char_of (48 + n)] else nat_digits (n div 10) @ [char_of (48 + n mod 10)])"

definition int_str :: "int \<Rightarrow> string" where
  "int_str i = (if i < 0 then CHR ''-'' # nat_digits (nat (- i)) else nat_digits (nat i))"

definition hex_digit :: "nat \<Rightarrow> char" where
  "hex_digit n = (if n < 10 then char_of (48 + n) else char_of (87 + n))"

definition repr_char :: "char \<Rightarrow> char \<Rightarrow> string" where
  "repr_char quote c =
     (let n = (of_char c :: nat) in
      if c = CHR 0x5C then [CHR 0x5C, CHR 0x5C]
      else if c = quote then [CHR 0x5C, c]
      else if c = CHR 0x09 then [CHR 0x5C, CHR ''t'']
      else if c = CHR 0x0A then [CHR 0x5C, CHR ''n'']
      else if c = CHR 0x0D then [CHR 0x5C, CHR ''r'']
      else if n < 32 \<or> (127 \<le> n \<and> n \<le> 160) \<or> n = 173
        then [CHR 0x5C, CHR ''x'', hex_digit (n div 16), hex_digit (n mod 16)]
      else [c])"

definition repr_str :: "string \<Rightarrow> string" where
  "repr_str s =
     (let quote = (if CHR 0x27 \<in> set s \<and> CHR 0x22 \<notin> set s then CHR 0x22 else CHR 0x27)
      in [quote] @ concat (map (repr_char quote) s) @ [quote])"

fun py_repr :: "pyval \<Rightarrow> string" where
  "py_repr PNone = ''None''"
| "py_repr (PBool b) = (if b then ''True'' else ''False'')"
| "py_repr (PInt i) = int_str i"
| "py_repr (PStr s) = repr_str s"
| "py_repr (PList xs) = ''['' @ join '', '' (map py_repr xs) @ '']''"
| "py_repr (PDict d) = ''{'' @ join '', '' (map (\<lambda>(k, v). repr_str k @ '': '' @ py_repr v) d) @ ''}''"

definition py_str :: "pyval \<Rightarrow> string" where
  "py_str v = (case v of PStr s \<Rightarrow> s | _ \<Rightarrow> py_repr v)"

definition opt_str :: "string option \<Rightarrow> string" where
  "opt_str v = (case v of None \<Rightarrow> ''None'' | Some s \<Rightarrow> s)"

section \<open>Chunk options (converters/base.py)\<close>

text \<open>
  The two module-level show tables \<^verbatim>\<open>_cb_default_show_notebook\<close> and
  \<^verbatim>\<open>_cb_default_show_inline_notebook\<close> are dict objects that the default option tables
  \<^verbatim>\<open>_cb_default_options\<close> and \<^verbatim>\<open>_cb_default_inline_options\<close> refer to. \<^verbatim>\<open>dict.copy()\<close> is a
  shallow copy, so the \<^verbatim>\<open>'show'\<close> entry of a chunk's fresh option mapping is a reference to the
  module-level object, not a dict of the chunk's own. The contents of the two objects are
  therefore part of the state.
\<close>

datatype show_object = DefaultShow | DefaultShowInline

datatype optval =
    OVal pyval
  | ORef show_object

type_synonym options = "(string \<times> optval) list"

record module_state =
  cb_default_show_notebook :: "(string \<times> string) list"
  cb_default_show_inline_notebook :: "(string \<times> string) list"

definition initial_module_state :: module_state where
  "initial_module_state =
     \<lparr>cb_default_show_notebook = [(''code'', ''verbatim''), (''stdout'', ''verbatim''), (''stderr'', ''verbatim'')],
      cb_default_show_inline_notebook = [(''expression'', ''raw''), (''stderr'', ''verbatim'')]\<rparr>"

definition show_contents :: "module_state \<Rightarrow> show_object \<Rightarrow> (string \<times> string) list" where
  "show_contents m r = (case r of DefaultShow \<Rightarrow> cb_default_show_notebook m
                                 | DefaultShowInline \<Rightarrow> cb_default_show_inline_notebook m)"

definition show_dict :: "(string \<times> string) list \<Rightarrow> pyval" where
  "show_dict d = PDict (map (\<lambda>(k, f). (k, PStr f)) d)"

definition cb_default_options :: options where
  "cb_default_options =
     [(''first_number'', OVal (PStr ''next'')),
      (''lang'', OVal PNone),
      (''line_numbers'', OVal (PBool True)),
      (''session'', OVal PNone),
      (''show'', ORef DefaultShow)]"

definition cb_default_inline_options :: options where
  "cb_default_inline_options =
     [(''lang'', OVal PNone),
      (''session'', OVal PNone),
      (''show'', ORef DefaultShowInline)]"

text \<open>The value of an option mapping in a module state: every reference replaced by the
  contents of the object it refers to. This is what \<^verbatim>\<open>==\<close> and printing see.\<close>

definition options_value :: "module_state \<Rightarrow> options \<Rightarrow> (string \<times> pyval) list" where
  "options_value m opts =
     map (\<lambda>(k, v). (k, case v of OVal x \<Rightarrow> x | ORef r \<Rightarrow> show_dict (show_contents m r))) opts"

text \<open>The default tables as the source declares them.\<close>

definition declared_default_options :: "(string \<times> pyval) list" where
  "declared_default_options =
     [(''first_number'', PStr ''next''),
      (''lang'', PNone),
      (''line_numbers'', PBool True),
      (''session'', PNone),
      (''show'', PDict [(''code'', PStr ''verbatim''), (''stdout'', PStr ''verbatim''), (''stderr'', PStr ''verbatim'')])]"

definition declared_default_inline_options :: "(string \<times> pyval) list" where
  "declared_default_inline_options =
     [(''lang'', PNone),
      (''session'', PNone),
      (''show'', PDict [(''expression'', PStr ''raw''), (''stderr'', PStr ''verbatim'')])]"

text \<open>\<^verbatim>\<open>code\<close> is a string or a list of lines; \<^verbatim>\<open>inline\<close> is \<^verbatim>\<open>Optional[bool]\<close>, and \<^verbatim>\<open>None\<close> is
  falsy.\<close>

datatype code_arg = CodeStr string | CodeLines "string list"

definition truthy :: "bool option \<Rightarrow> bool" where
  "truthy b = (b = Some True)"

record code_chunk =
  command :: "string option"
  code :: string
  source_name :: "string option"
  source_start_line_number :: "int option"
  inline :: "bool option"
  options :: options
  source_errors :: "string list"
  source_warnings :: "string list"

definition add_error :: "string \<Rightarrow> code_chunk \<Rightarrow> code_chunk" where
  "add_error msg ch = ch\<lparr>source_errors := source_errors ch @ [msg]\<rparr>"

definition add_warning :: "string \<Rightarrow> code_chunk \<Rightarrow> code_chunk" where
  "add_warning msg ch = ch\<lparr>source_warnings := source_warnings ch @ [msg]\<rparr>"

definition invalid_value_msg :: "string \<Rightarrow> pyval \<Rightarrow> string" where
  "invalid_value_msg key v = ''Invalid '' @ dq @ key @ dq @ '' value '' @ dq @ py_str v @ dq @ '' in code chunk''"

text \<open>
  An option processor gets the chunk, the key, the value and the option mapping being built
  (\<^verbatim>\<open>final_options\<close>), and changes the chunk's message lists and the mapping in place; through
  a reference in the mapping it can reach a module-level show table. The model returns the
  three of them, or the exception raised.
\<close>

type_synonym processing = "code_chunk \<times> module_state \<times> options"

definition cb_option_unknown :: "processing \<Rightarrow> string \<Rightarrow> pyval \<Rightarrow> py_error + processing" where
  "cb_option_unknown p key v =
     (case p of (ch, m, opts) \<Rightarrow>
        Inr (add_error (''Unknown option '' @ dq @ key @ dq @ '' for code chunk'') ch, m, opts))"

definition cb_option_bool :: "processing \<Rightarrow> string \<Rightarrow> pyval \<Rightarrow> py_error + processing" where
  "cb_option_bool p key v =
     (case p of (ch, m, opts) \<Rightarrow>
        (case v of
           PBool b \<Rightarrow> Inr (ch, m, AList.update key (OVal v) opts)
         | _ \<Rightarrow> Inr (add_warning (invalid_value_msg key v) ch, m, opts)))"

definition cb_option_str :: "processing \<Rightarrow> string \<Rightarrow> pyval \<Rightarrow> py_error + processing" where
  "cb_option_str p key v =
     (case p of (ch, m, opts) \<Rightarrow>
        (case v of
           PStr s \<Rightarrow> Inr (ch, m, AList.update key (OVal v) opts)
         | _ \<Rightarrow> Inr (add_warning (invalid_value_msg key v) ch, m, opts)))"

text \<open>\<^verbatim>\<open>isinstance(value, int) and value > 0\<close>: \<^verbatim>\<open>bool\<close> is a subclass of \<^verbatim>\<open>int\<close>, and
  \<^verbatim>\<open>True > 0\<close>.\<close>

definition cb_option_first_number :: "processing \<Rightarrow> string \<Rightarrow> pyval \<Rightarrow> py_error + processing" where
  "cb_option_first_number p key v =
     (case p of (ch, m, opts) \<Rightarrow>
        if (case v of PInt i \<Rightarrow> i > 0 | PBool b \<Rightarrow> b | PStr s \<Rightarrow> s = ''next'' | _ \<Rightarrow> False)
        then Inr (ch, m, AList.update key (OVal v) opts)
        else Inr (add_warning (invalid_value_msg key v) ch, m, opts))"

text \<open>\<^verbatim>\<open>options['show'].pop(v, None)\<close>: the object that \<^verbatim>\<open>options['show']\<close> refers to loses
  the key \<open>v\<close>. \<^verbatim>\<open>None\<close> has no \<^verbatim>\<open>pop\<close>.\<close>

definition show_pop :: "module_state \<times> options \<Rightarrow> string \<Rightarrow> py_error + module_state \<times> options" where
  "show_pop mo v =
     (case mo of (m, opts) \<Rightarrow>
        (case map_of opts ''show'' of
           None \<Rightarrow> Inl KeyError
         | Some (ORef DefaultShow) \<Rightarrow>
             Inr (m\<lparr>cb_default_show_notebook := AList.delete v (cb_default_show_notebook m)\<rparr>, opts)
         | Some (ORef DefaultShowInline) \<Rightarrow>
             Inr (m\<lparr>cb_default_show_inline_notebook := AList.delete v (cb_default_show_inline_notebook m)\<rparr>, opts)
         | Some (OVal (PDict d)) \<Rightarrow> Inr (m, AList.update ''show'' (OVal (PDict (AList.delete v d))) opts)
         | Some (OVal (PList xs)) \<Rightarrow> Inl TypeError
         | Some (OVal x) \<Rightarrow> Inl AttributeError))"

fun show_pop_all :: "module_state \<times> options \<Rightarrow> string list \<Rightarrow> py_error + module_state \<times> options" where
  "show_pop_all mo [] = Inr mo"
| "show_pop_all mo (v # vs) = (case show_pop mo v of Inl e \<Rightarrow> Inl e | Inr mo' \<Rightarrow> show_pop_all mo' vs)"

text \<open>With \<^verbatim>\<open>hide=all\<close> the last statement \<^verbatim>\<open>options[key] = hide_values\<close> reads a local
  variable that has no value.\<close>

definition cb_option_hide :: "processing \<Rightarrow> string \<Rightarrow> pyval \<Rightarrow> py_error + processing" where
  "cb_option_hide p key v =
     (case p of (ch, m, opts) \<Rightarrow>
        (case v of
           PStr s \<Rightarrow>
             if s = ''all'' then Inl UnboundLocalError
             else
               (let hide_values = split_char CHR ''+'' (remove_spaces s) in
                if \<not> list_all (\<lambda>x. x \<in> set [''code'', ''stdout'', ''stderr'', ''expression'']) hide_values
                then Inr (add_warning (invalid_value_msg key v) ch, m, opts)
                else
                  (case show_pop_all (m, opts) hide_values of
                     Inl e \<Rightarrow> Inl e
                   | Inr (m', opts') \<Rightarrow> Inr (ch, m', AList.update key (OVal (PList (map PStr hide_values))) opts')))
         | _ \<Rightarrow> Inr (add_warning (invalid_value_msg key v) ch, m, opts)))"

definition cb_option_label :: "processing \<Rightarrow> string \<Rightarrow> pyval \<Rightarrow> py_error + processing" where
  "cb_option_label p key v =
     (case p of (ch, m, opts) \<Rightarrow>
        if map_of opts ''label'' \<noteq> None
        then Inr (add_warning (''Duplicate option '' @ dq @ key @ dq @ '' (label/name) for code chunk'') ch, m, opts)
        else (case v of
                PStr s \<Rightarrow> Inr (ch, m, AList.update ''label'' (OVal v) opts)
              | _ \<Rightarrow> Inr (add_warning (invalid_value_msg key v) ch, m, opts)))"

text \<open>
  One turn of the loop of \<^verbatim>\<open>_cb_option_show\<close> over the \<^verbatim>\<open>+\<close>-separated items of the value. The
  state is \<^verbatim>\<open>value_processed\<close> and the chunk's warnings. \<open>show_format\<close> gives the format to
  store for an item that is not a duplicate, or the warning that drops it.
\<close>

definition show_item_parts :: "string \<Rightarrow> string \<times> string option" where
  "show_item_parts output_and_format =
     (if CHR '':'' \<notin> set output_and_format then (output_and_format, None)
      else (case split_first CHR '':'' output_and_format of (output, format) \<Rightarrow> (output, Some format)))"

definition show_format :: "bool option \<Rightarrow> string \<Rightarrow> pyval \<Rightarrow> string \<Rightarrow> string option \<Rightarrow> string + string" where
  "show_format inl key v output format =
     (if output = ''code'' then
        (case format of
           None \<Rightarrow> Inr ''verbatim''
         | Some f \<Rightarrow> if f \<noteq> ''verbatim'' then Inl (invalid_value_msg key v) else Inr f)
      else if output \<in> set [''stdout'', ''stderr''] then
        (case format of
           None \<Rightarrow> Inr ''verbatim''
         | Some f \<Rightarrow> if f \<notin> set [''verbatim'', ''verbatim_or_empty'', ''raw''] then Inl (invalid_value_msg key v) else Inr f)
      else if output = ''expression'' then
        (if \<not> truthy inl
         then Inl (''Invalid '' @ dq @ key @ dq @ '' value '' @ dq @ py_str v @ dq @ '' (not inline) in code chunk'')
         else (case format of
                 None \<Rightarrow> Inr ''raw''
               | Some f \<Rightarrow> if f \<notin> set [''verbatim'', ''verbatim_or_empty'', ''raw''] then Inl (invalid_value_msg key v) else Inr f))
      else Inl (invalid_value_msg key v))"

definition duplicate_show_msg :: "string \<Rightarrow> pyval \<Rightarrow> string \<Rightarrow> string" where
  "duplicate_show_msg key v output =
     ''Option '' @ dq @ key @ dq @ '' value '' @ dq @ py_str v @ dq @ '' contains duplicate '' @ dq @ output @ dq
       @ '' in code chunk''"

definition show_item :: "bool option \<Rightarrow> string \<Rightarrow> pyval \<Rightarrow> (string \<times> string) list \<times> string list \<Rightarrow> string
                           \<Rightarrow> (string \<times> string) list \<times> string list" where
  "show_item inl key v acc output_and_format =
     (case acc of (value_processed, warnings) \<Rightarrow>
        (case show_item_parts output_and_format of (output, format) \<Rightarrow>
           if map_of value_processed output \<noteq> None
           then (value_processed, warnings @ [duplicate_show_msg key v output])
           else (case show_format inl key v output format of
                   Inl w \<Rightarrow> (value_processed, warnings @ [w])
                 | Inr f \<Rightarrow> (AList.update output f value_processed, warnings))))"

definition show_items :: "bool option \<Rightarrow> string \<Rightarrow> pyval \<Rightarrow> (string \<times> string) list \<times> string list \<Rightarrow> string list
                           \<Rightarrow> (string \<times> string) list \<times> string list" where
  "show_items inl key v acc items = foldl (show_item inl key v) acc items"

definition cb_option_show :: "processing \<Rightarrow> string \<Rightarrow> pyval \<Rightarrow> py_error + processing" where
  "cb_option_show p key v =
     (case p of (ch, m, opts) \<Rightarrow>
        (case v of
           PStr s \<Rightarrow>
             if s = ''none'' then Inr (ch, m, AList.update key (OVal PNone) opts)
             else if s = ''notebook'' then
               (if truthy (inline ch)
                then Inr (ch, m, AList.update key (OVal (show_dict (cb_default_show_inline_notebook m))) opts)
                else Inr (ch, m, AList.update key (OVal (show_dict (cb_default_show_notebook m))) opts))
             else
               (case show_items (inline ch) key v ([], source_warnings ch) (split_char CHR ''+'' (remove_spaces s)) of
                  (value_processed, warnings) \<Rightarrow>
                    Inr (ch\<lparr>source_warnings := warnings\<rparr>, m, AList.update key (OVal (show_dict value_processed)) opts))
         | _ \<Rightarrow> Inr (add_warning (invalid_value_msg key v) ch, m, opts)))"

text \<open>\<^verbatim>\<open>_cb_option_processors[k]\<close>: a \<^verbatim>\<open>defaultdict\<close> whose default is \<^verbatim>\<open>_cb_option_unknown\<close>.\<close>

definition cb_option_processors :: "string \<Rightarrow> processing \<Rightarrow> string \<Rightarrow> pyval \<Rightarrow> py_error + processing" where
  "cb_option_processors k =
     (if k = ''hide'' then cb_option_hide
      else if k = ''first_number'' then cb_option_first_number
      else if k = ''label'' then cb_option_label
      else if k = ''lang'' then cb_option_str
      else if k = ''line_numbers'' then cb_option_bool
      else if k = ''session'' then cb_option_str
      else if k = ''show'' then cb_option_show
      else cb_option_unknown)"

text \<open>The loop \<^verbatim>\<open>for k, v in options.items(): self._option_processors[k](self, k, v, final_options)\<close>.\<close>

fun process_options :: "processing \<Rightarrow> (string \<times> pyval) list \<Rightarrow> py_error + processing" where
  "process_options p [] = Inr p"
| "process_options p ((k, v) # kvs) =
     (case cb_option_processors k p k v of Inl e \<Rightarrow> Inl e | Inr p' \<Rightarrow> process_options p' kvs)"

text \<open>
  \<^verbatim>\<open>CodeChunk.__init__\<close>. \<open>errors0\<close> and \<open>warnings0\<close> are the message lists the object has
  when the constructor is entered: empty for a new \<^verbatim>\<open>CodeChunk\<close>, and what the subclass has
  recorded before it calls \<^verbatim>\<open>super().__init__\<close> (\<^verbatim>\<open>__pre_init__\<close> keeps existing lists). The result
  is the chunk and the module state after the constructor, or the exception it raises.
\<close>

definition code_lines_of :: "code_arg \<Rightarrow> string list" where
  "code_lines_of c = (case c of CodeLines ls \<Rightarrow> ls | CodeStr s \<Rightarrow> splitlines s)"

text \<open>The statements of the constructor before the option loop: the command check, the
  line count check, the newline appended to the last line of block code, and the fields.\<close>

definition initial_errors :: "string list \<Rightarrow> string option \<Rightarrow> code_arg \<Rightarrow> bool option \<Rightarrow> string list" where
  "initial_errors errors0 cmd code_in inl =
     (let errors1 = (if cmd \<notin> {Some ''code'', Some ''run''}
                     then errors0 @ [''Unknown Codebraid command '' @ dq @ opt_str cmd @ dq]
                     else errors0)
      in if length (code_lines_of code_in) > 1 \<and> truthy inl
         then errors1 @ [''Inline code cannot be longer that 1 line'']
         else errors1)"

definition initial_chunk ::
  "string list \<Rightarrow> string list \<Rightarrow> string option \<Rightarrow> code_arg \<Rightarrow> string option \<Rightarrow> int option \<Rightarrow> bool option
     \<Rightarrow> code_chunk" where
  "initial_chunk errors0 warnings0 cmd code_in src_name src_line inl =
     (let code_lines = code_lines_of code_in;
          code_lines' = (if \<not> truthy inl then butlast code_lines @ [last code_lines @ [CHR 0x0A]] else code_lines)
      in \<lparr>command = cmd, code = join [CHR 0x0A] code_lines', source_name = src_name,
          source_start_line_number = src_line, inline = inl, options = [],
          source_errors = initial_errors errors0 cmd code_in inl, source_warnings = warnings0\<rparr>)"

definition CodeChunk_init ::
  "module_state \<Rightarrow> string list \<Rightarrow> string list \<Rightarrow> string option \<Rightarrow> code_arg \<Rightarrow> (string \<times> pyval) list
     \<Rightarrow> string option \<Rightarrow> int option \<Rightarrow> bool option \<Rightarrow> py_error + code_chunk \<times> module_state" where
  "CodeChunk_init m errors0 warnings0 cmd code_in opts_in src_name src_line inl =
     (if \<not> truthy inl \<and> code_lines_of code_in = [] then Inl IndexError
      else
        (case process_options (initial_chunk errors0 warnings0 cmd code_in src_name src_line inl, m,
                               if truthy inl then cb_default_inline_options else cb_default_options) opts_in of
           Inl e \<Rightarrow> Inl e
         | Inr (ch', m', final_options') \<Rightarrow> Inr (ch'\<lparr>options := final_options'\<rparr>, m')))"

section \<open>Output nodes of a chunk (converters/pandoc.py)\<close>

text \<open>
  \<^verbatim>\<open>PandocCodeChunk\<close> adds to the fields of \<^verbatim>\<open>CodeChunk\<close> the node and its position, the Pandoc
  attributes and the cache \<^verbatim>\<open>_output_nodes\<close>. The fields \<^verbatim>\<open>node\<close>, \<^verbatim>\<open>parent_node\<close>,
  \<^verbatim>\<open>parent_node_list\<close> and \<^verbatim>\<open>parent_node_list_index\<close> have the prefix \<open>chunk_\<close>.
  \<^verbatim>\<open>code_start_line_number\<close> is the attribute that \<^verbatim>\<open>CodeChunk.__init__\<close> sets to \<^verbatim>\<open>None\<close>.
\<close>

record pandoc_code_chunk = code_chunk +
  chunk_node :: pyval
  chunk_parent_node :: pyval
  chunk_parent_node_list :: pyval
  chunk_parent_node_list_index :: nat
  node_id :: pyval
  node_classes :: pyval
  node_kvpairs :: pyval
  pandoc_id :: pyval
  pandoc_classes :: "pyval list"
  pandoc_kvpairs :: "pyval list"
  output_nodes_cache :: "pyval list option"
  code_start_line_number :: "int option"

text \<open>
  The property \<^verbatim>\<open>output_nodes\<close> also reads attributes that neither constructor sets
  (\<^verbatim>\<open>runtime_source_error\<close>, \<^verbatim>\<open>repl_lines\<close>, \<^verbatim>\<open>expr_lines\<close>, \<^verbatim>\<open>stdout_lines\<close>, \<^verbatim>\<open>stderr_lines\<close>,
  \<^verbatim>\<open>rich_output\<close>): the execution engine writes them. A chunk that has them is an
  \<open>executed_chunk\<close>; \<open>with_results\<close> adds them to a chunk.
\<close>

record rich_output_item =
  ro_data :: "(string \<times> string) list"
  ro_files :: "(string \<times> string) list"

record engine_results =
  runtime_source_error :: bool
  repl_lines :: "string list option"
  expr_lines :: "string list option"
  stdout_lines :: "string list option"
  stderr_lines :: "string list option"
  rich_output :: "rich_output_item list option"

record executed_chunk = pandoc_code_chunk +
  results :: engine_results

definition with_results :: "pandoc_code_chunk \<Rightarrow> engine_results \<Rightarrow> executed_chunk" where
  "with_results ch r = pandoc_code_chunk.extend ch (executed_chunk.fields r)"

text \<open>
  Modelled from the spec: \<^verbatim>\<open>layout_output\<close>, \<^verbatim>\<open>util.splitlines_lf\<close> and the tables
  \<^verbatim>\<open>options.rich_text_default_display\<close> and \<^verbatim>\<open>options.mime_map\<close> are not in the sources. The
  spec says only that the execution engine's results are laid out as text, so they are
  parameters of \<open>output_nodes\<close>: the text of an output channel in a display format (with
  the lines to lay out, when the caller passes them), the splitting of a text into lines, and
  the two tables.
\<close>

record layout_env =
  layout_output :: "string \<Rightarrow> pyval \<Rightarrow> string list option \<Rightarrow> string"
  splitlines_lf :: "string \<Rightarrow> string list"
  rich_text_default_display :: "(string \<times> string) list"
  mime_map :: "(string \<times> string) list"

definition py_truthy :: "pyval \<Rightarrow> bool" where
  "py_truthy v = (case v of PNone \<Rightarrow> False | PBool b \<Rightarrow> b | PInt i \<Rightarrow> i \<noteq> 0 | PStr s \<Rightarrow> s \<noteq> []
                           | PList xs \<Rightarrow> xs \<noteq> [] | PDict d \<Rightarrow> d \<noteq> [])"

text \<open>\<^verbatim>\<open>self.options[k]\<close>, read through a reference to a module-level show table where the
  entry is one.\<close>

definition option_getitem :: "module_state \<Rightarrow> options \<Rightarrow> string \<Rightarrow> py_error + pyval" where
  "option_getitem m opts k =
     (case map_of opts k of
        None \<Rightarrow> Inl KeyError
      | Some (OVal v) \<Rightarrow> Inr v
      | Some (ORef r) \<Rightarrow> Inr (show_dict (show_contents m r)))"

definition mk_node :: "string \<Rightarrow> pyval \<Rightarrow> pyval" where
  "mk_node t c = PDict [(''t'', PStr t), (''c'', c)]"

definition attr :: "pyval \<Rightarrow> pyval list \<Rightarrow> pyval list \<Rightarrow> pyval" where
  "attr ident classes kvpairs = PList [ident, PList classes, PList kvpairs]"

definition code_node :: "string \<Rightarrow> pyval \<Rightarrow> string \<Rightarrow> pyval" where
  "code_node t a text = mk_node t (PList [a, PStr text])"

text \<open>The branch of \<^verbatim>\<open>output_nodes\<close> taken when the chunk has source errors.\<close>

definition source_error_message :: "'a executed_chunk_scheme \<Rightarrow> string" where
  "source_error_message ch =
     (if runtime_source_error (results ch) then ''RUNTIME SOURCE ERROR in '' else ''SOURCE ERROR in '')
       @ dq @ opt_str (source_name ch) @ dq @ '' near line ''
       @ (case source_start_line_number ch of None \<Rightarrow> ''None'' | Some n \<Rightarrow> int_str n) @ '':''"

definition source_error_nodes :: "'a executed_chunk_scheme \<Rightarrow> pyval list" where
  "source_error_nodes ch =
     (if truthy (inline ch)
      then [code_node ''Code'' (attr (PStr []) [PStr ''sourceError''] [])
              (source_error_message ch @ '' '' @ join '' '' (source_errors ch))]
      else [code_node ''CodeBlock'' (attr (PStr []) [PStr ''sourceError''] [])
              (source_error_message ch @ [CHR 0x0A] @ join [CHR 0x0A] (source_errors ch))])"

text \<open>\<^verbatim>\<open>getattr(self, output+'_lines')\<close> for \<open>output\<close> in \<^verbatim>\<open>('expr', 'stdout', 'stderr')\<close>.\<close>

definition lines_attr :: "'a executed_chunk_scheme \<Rightarrow> string \<Rightarrow> string list option" where
  "lines_attr ch output =
     (if output = ''expr'' then expr_lines (results ch) else if output = ''stdout'' then stdout_lines (results ch)
      else stderr_lines (results ch))"

text \<open>
  The loop \<^verbatim>\<open>for fmt_and_text_display in format\<close> over the formats asked for one rich output:
  it appends at most one node and then \<^verbatim>\<open>break\<close>s. \<^verbatim>\<open>fmt, fmt_text_display = s.split(':')\<close>
  needs exactly one colon.
\<close>

fun rich_formats :: "layout_env \<Rightarrow> string \<Rightarrow> string \<Rightarrow> bool \<Rightarrow> string \<Rightarrow> rich_output_item \<Rightarrow> pyval list
                       \<Rightarrow> py_error + pyval list" where
  "rich_formats env t_code t_raw inl output ro [] = Inr []"
| "rich_formats env t_code t_raw inl output ro (PStr fmt_and_text_display # rest) =
     (case (if CHR '':'' \<in> set fmt_and_text_display
            then (case split_char CHR '':'' fmt_and_text_display of
                    [f, d] \<Rightarrow> Inr (f, Some d)
                  | _ \<Rightarrow> Inl ValueError)
            else Inr (fmt_and_text_display, map_of (rich_text_default_display env) fmt_and_text_display)) of
        Inl e \<Rightarrow> Inl e
      | Inr (fmt, fmt_text_display) \<Rightarrow>
          (case map_of (mime_map env) fmt of
             None \<Rightarrow> Inl KeyError
           | Some fmt_mime_type \<Rightarrow>
               (case map_of (ro_data ro) fmt_mime_type of
                  None \<Rightarrow> rich_formats env t_code t_raw inl output ro rest
                | Some data \<Rightarrow>
                    (case map_of (ro_files ro) fmt_mime_type of
                       Some file \<Rightarrow>
                         (let image_node = mk_node ''Image'' (PList [attr (PStr []) [] [], PList [], PList [PStr file, PStr []]])
                          in if inl then Inr [image_node] else Inr [mk_node ''Para'' (PList [image_node])])
                     | None \<Rightarrow>
                         (let lines = splitlines_lf env data in
                          if fmt \<in> set [''latex'', ''html'', ''markdown''] then
                            (let raw_fmt = (if fmt = ''latex'' then ''tex'' else fmt) in
                             if fmt_text_display = Some ''raw'' then
                               Inr [mk_node t_raw (PList [PStr raw_fmt, PStr (layout_output env output (PStr ''raw'') (Some lines))])]
                             else if fmt_text_display = Some ''verbatim'' then
                               (if lines \<noteq> []
                                then Inr [code_node t_code (attr (PStr []) [PStr fmt] []) (layout_output env output (PStr ''verbatim'') (Some lines))]
                                else Inr [])
                             else if fmt_text_display = Some ''verbatim_or_empty'' then
                               Inr [code_node t_code (attr (PStr []) [PStr fmt] []) (layout_output env output (PStr ''verbatim'') (Some lines))]
                             else Inl ValueError)
                          else if fmt = ''plain'' then
                            (if fmt_text_display = Some ''raw'' then
                               Inr [mk_node t_raw (PList [PStr ''markdown'', PStr (layout_output env output (PStr ''raw'') (Some lines))])]
                             else if fmt_text_display = Some ''verbatim'' then
                               (if lines \<noteq> []
                                then Inr [code_node t_code (attr (PStr []) [] []) (layout_output env output (PStr ''verbatim'') (Some lines))]
                                else Inr [])
                             else if fmt_text_display = Some ''verbatim_or_empty'' then
                               Inr [code_node t_code (attr (PStr []) [] []) (layout_output env output (PStr ''verbatim'') (Some lines))]
                             else Inl ValueError)
                          else Inl ValueError)))))"
| "rich_formats env t_code t_raw inl output ro (v # rest) = Inl TypeError"

text \<open>The value of \<^verbatim>\<open>format\<close> as something to iterate: a list, or the characters of a string.\<close>

definition format_items :: "pyval \<Rightarrow> py_error + pyval list" where
  "format_items v = (case v of PList xs \<Rightarrow> Inr xs | PStr s \<Rightarrow> Inr (map (\<lambda>c. PStr [c]) s)
                             | PDict d \<Rightarrow> Inr (map (\<lambda>(k, x). PStr k) d) | _ \<Rightarrow> Inl TypeError)"

fun rich_outputs :: "layout_env \<Rightarrow> string \<Rightarrow> string \<Rightarrow> bool \<Rightarrow> string \<Rightarrow> pyval \<Rightarrow> rich_output_item list
                       \<Rightarrow> py_error + pyval list" where
  "rich_outputs env t_code t_raw inl output format [] = Inr []"
| "rich_outputs env t_code t_raw inl output format (ro # ros) =
     (case format_items format of
        Inl e \<Rightarrow> Inl e
      | Inr fmts \<Rightarrow> appE (rich_formats env t_code t_raw inl output ro fmts)
                     (rich_outputs env t_code t_raw inl output format ros))"

text \<open>The display format of a text channel as the comparisons \<^verbatim>\<open>format == '...'\<close> see it.\<close>

definition show_entry_nodes :: "layout_env \<Rightarrow> 'a executed_chunk_scheme \<Rightarrow> string \<Rightarrow> string \<Rightarrow> string \<Rightarrow> pyval
                                  \<Rightarrow> py_error + pyval list" where
  "show_entry_nodes env ch t_code t_raw output format =
     (let chunk_attr = attr (pandoc_id ch) (pandoc_classes ch) (pandoc_kvpairs ch)
      in
      if output \<in> set [''markup'', ''copied_markup''] then
        Inr [code_node t_code (attr (PStr []) [PStr ''markdown''] []) (layout_output env output format None)]
      else if output = ''code'' then
        Inr [code_node t_code chunk_attr (layout_output env output format None)]
      else if output = ''repl'' then
        (if repl_lines (results ch) = None then Inr []
         else Inr [code_node t_code chunk_attr (layout_output env output format None)])
      else if output \<in> set [''expr'', ''stdout'', ''stderr''] then
        (if format = PStr ''verbatim'' then
           (if lines_attr ch output \<noteq> None
            then Inr [code_node t_code (attr (PStr []) [PStr output] []) (layout_output env output format None)]
            else Inr [])
         else if format = PStr ''verbatim_or_empty'' then
           Inr [code_node t_code (attr (PStr []) [PStr output] []) (layout_output env output format None)]
         else if format = PStr ''raw'' then
           (if lines_attr ch output \<noteq> None
            then Inr [mk_node t_raw (PList [PStr ''markdown'', PStr (layout_output env output format None)])]
            else Inr [])
         else Inl ValueError)
      else if output = ''rich_output'' then
        (case rich_output (results ch) of
           None \<Rightarrow> Inr []
         | Some ros \<Rightarrow> rich_outputs env t_code t_raw (truthy (inline ch)) output format ros)
      else Inl ValueError)"

fun show_nodes :: "layout_env \<Rightarrow> 'a executed_chunk_scheme \<Rightarrow> string \<Rightarrow> string \<Rightarrow> (string \<times> pyval) list
                     \<Rightarrow> py_error + pyval list" where
  "show_nodes env ch t_code t_raw [] = Inr []"
| "show_nodes env ch t_code t_raw ((output, format) # rest) =
     appE (show_entry_nodes env ch t_code t_raw output format) (show_nodes env ch t_code t_raw rest)"

text \<open>
  The guard against merging, over the pairs \<^verbatim>\<open>zip(unformatted_nodes[:-1], unformatted_nodes[1:])\<close>:
  each node but the last is appended, followed by a separator when the test says so; the last
  node is appended after the loop. \<open>separator inl t_code t_raw node next_node\<close> is the
  separator put between two adjacent nodes, if any. \<^verbatim>\<open>node['t']\<close> is read from every node.
\<close>

definition node_type_of :: "pyval \<Rightarrow> py_error + pyval" where
  "node_type_of node = (case node of PDict d \<Rightarrow> dict_getitem d ''t'' | PList xs \<Rightarrow> Inl TypeError
                                   | PStr s \<Rightarrow> Inl TypeError | _ \<Rightarrow> Inl TypeError)"

definition separator :: "bool \<Rightarrow> string \<Rightarrow> string \<Rightarrow> pyval \<Rightarrow> pyval \<Rightarrow> py_error + pyval list" where
  "separator inl t_code t_raw node next_node =
     bindE (node_type_of node) (\<lambda>t.
     if t = PStr t_raw then
       (if inl then Inr [mk_node ''Str'' (PStr '' '')] else Inr [mk_node ''Para'' (PList [])])
     else
       bindE (node_type_of next_node) (\<lambda>t'.
       if t' = PStr t_raw then
         (if inl then Inr [mk_node ''Str'' (PStr '' '')] else Inr [mk_node ''Para'' (PList [])])
       else if inl \<and> t = t' \<and> t' = PStr t_code then Inr [mk_node ''Str'' (PStr '' '')]
       else Inr []))"

fun separate :: "bool \<Rightarrow> string \<Rightarrow> string \<Rightarrow> pyval list \<Rightarrow> py_error + pyval list" where
  "separate inl t_code t_raw [] = Inr []"
| "separate inl t_code t_raw [node] = Inr [node]"
| "separate inl t_code t_raw (node # next_node # rest) =
     appE (Inr [node]) (appE (separator inl t_code t_raw node next_node)
                             (separate inl t_code t_raw (next_node # rest)))"

text \<open>
  The property \<^verbatim>\<open>output_nodes\<close>: the nodes, and the chunk with its cache (and, with line
  numbering, its \<^verbatim>\<open>pandoc_kvpairs\<close>) updated.
\<close>

definition output_nodes :: "layout_env \<Rightarrow> module_state \<Rightarrow> 'a executed_chunk_scheme
                              \<Rightarrow> py_error + pyval list \<times> 'a executed_chunk_scheme" where
  "output_nodes env m ch =
     (case output_nodes_cache ch of
        Some nodes \<Rightarrow> Inr (nodes, ch)
      | None \<Rightarrow>
          if source_errors ch \<noteq> [] then
            Inr (source_error_nodes ch, ch\<lparr>output_nodes_cache := Some (source_error_nodes ch)\<rparr>)
          else
            bindE (if \<not> truthy (inline ch)
                   then bindE (option_getitem m (options ch) ''code_line_numbers'') (\<lambda>ln.
                        if py_truthy ln then
                          bindE (option_getitem m (options ch) ''code_first_number'') (\<lambda>first_number.
                          let first_number' =
                                (if first_number = PStr ''next''
                                 then (case code_start_line_number ch of None \<Rightarrow> ''None'' | Some n \<Rightarrow> int_str n)
                                 else py_str first_number)
                          in Inr (ch\<lparr>pandoc_kvpairs := pandoc_kvpairs ch @ [PList [PStr ''startFrom'', PStr first_number']]\<rparr>))
                        else Inr ch)
                   else Inr ch) (\<lambda>ch1.
            let t_code = (if truthy (inline ch1) then ''Code'' else ''CodeBlock'');
                t_raw = (if truthy (inline ch1) then ''RawInline'' else ''RawBlock'')
            in
            bindE (option_getitem m (options ch1) ''show'') (\<lambda>show.
            bindE (case show of PDict d \<Rightarrow> Inr d | _ \<Rightarrow> Inl AttributeError) (\<lambda>entries.
            bindE (show_nodes env ch1 t_code t_raw entries) (\<lambda>unformatted_nodes.
            bindE (separate (truthy (inline ch1)) t_code t_raw unformatted_nodes) (\<lambda>nodes.
            Inr (nodes, ch1\<lparr>output_nodes_cache := Some nodes\<rparr>)))))))"

text \<open>
  The condition for a separator as the specification words it, to compare with \<open>separator\<close>:
  a raw node next to another raw node, or two inline code nodes of the same kind back to back.
\<close>

definition stated_separator_condition :: "bool \<Rightarrow> string \<Rightarrow> string \<Rightarrow> pyval \<Rightarrow> pyval \<Rightarrow> bool" where
  "stated_separator_condition inl t_code t_raw ta tb =
     ((ta = PStr t_raw \<and> tb = PStr t_raw) \<or> (inl \<and> ta = PStr t_code \<and> tb = PStr t_code))"

section \<open>The source-trace matcher (converters/pandoc.py)\<close>

text \<open>
  \<^verbatim>\<open>text.find(pat, start)\<close> as an option, \<^verbatim>\<open>text.count('\n', start, stop)\<close>, and the test
  \<^verbatim>\<open>text[i:i+1] in chars\<close>, which is false past the end of the text.
\<close>

fun find_at :: "string \<Rightarrow> string \<Rightarrow> nat \<Rightarrow> nat option" where
  "find_at pat [] j = (if pat = [] then Some j else None)"
| "find_at pat (x # xs) j = (if take (length pat) (x # xs) = pat then Some j else find_at pat xs (Suc j))"

definition find_from :: "string \<Rightarrow> string \<Rightarrow> nat \<Rightarrow> nat option" where
  "find_from pat text start = (if length text < start then None else find_at pat (drop start text) start)"

definition count_newlines :: "string \<Rightarrow> nat \<Rightarrow> nat \<Rightarrow> nat" where
  "count_newlines text start stop = length (filter (\<lambda>c. c = CHR 0x0A) (take (stop - start) (drop start text)))"

definition char_in_at :: "string \<Rightarrow> nat \<Rightarrow> char list \<Rightarrow> bool" where
  "char_in_at text i chars = (i < length text \<and> text ! i \<in> set chars)"

definition before_attr_chars :: "char list" where
  "before_attr_chars = [CHR ''{'', CHR '' '', CHR 0x09, CHR 0x0A]"

definition after_attr_chars :: "char list" where
  "after_attr_chars = [CHR ''}'', CHR '' '', CHR 0x09, CHR 0x0A]"

text \<open>The \<^verbatim>\<open>for _ in range(max_command_len + 1)\<close> loop with its \<^verbatim>\<open>else\<close>: the index of the first
  terminator at or after \<open>e\<close> within the given number of steps, or \<open>None\<close> for \<open>-1\<close>.\<close>

fun scan_command_end :: "string \<Rightarrow> nat \<Rightarrow> nat \<Rightarrow> nat option" where
  "scan_command_end text e 0 = None"
| "scan_command_end text e (Suc k) =
     (if char_in_at text e after_attr_chars then Some e else scan_command_end text (Suc e) k)"

text \<open>
  Modelled from the spec: \<^verbatim>\<open>CodeChunk.commands\<close>, the set of command names, is not in the
  sources (the spec: ``a command name drawn from a fixed small set'', ``e.g. \<^verbatim>\<open>code\<close>,
  \<^verbatim>\<open>run\<close>''). It is the parameter \<open>commands\<close>; \<^verbatim>\<open>max_command_len\<close> is computed from it as in
  the source.
\<close>

definition max_command_len :: "string list \<Rightarrow> nat" where
  "max_command_len commands = foldr max (map length commands) 0"

type_synonym cb_occurrence = "nat \<times> nat \<times> bool \<times> string option"

lemma find_at_bounds: "find_at pat xs j = Some i \<Longrightarrow> j \<le> i \<and> i + length pat \<le> j + length xs"
proof (induction xs arbitrary: j)
  case Nil
  then show ?case by (simp split: if_splits)
next
  case (Cons x xs)
  show ?case
  proof (cases "take (length pat) (x # xs) = pat")
    case True
    then have "length (take (length pat) (x # xs)) = length pat" by simp
    then have "length pat \<le> length (x # xs)" by simp
    with True Cons.prems show ?thesis by simp
  next
    case False
    with Cons.prems have "find_at pat xs (Suc j) = Some i" by simp
    from Cons.IH[OF this] show ?thesis by simp
  qed
qed

lemma find_from_bounds: "find_from pat text start = Some i \<Longrightarrow> start \<le> i \<and> i + length pat \<le> length text"
  by (auto simp: find_from_def split: if_splits dest!: find_at_bounds)

lemma scan_command_end_bounds: "scan_command_end s e k = Some e' \<Longrightarrow> e \<le> e' \<and> e' < length s"
  by (induction s e k rule: scan_command_end.induct) (auto simp: char_in_at_def split: if_splits)

function find_cb_from :: "string list \<Rightarrow> string \<Rightarrow> nat \<Rightarrow> nat \<Rightarrow> cb_occurrence list" where
  "find_cb_from commands text start_index line_num =
     (case find_from ''.cb.'' text start_index of
        None \<Rightarrow> []
      | Some maybe_start_cb_command_index \<Rightarrow>
          (let line_num' = line_num + count_newlines text start_index maybe_start_cb_command_index;
               maybe_end_cb_command_index =
                 scan_command_end text (maybe_start_cb_command_index + 4) (max_command_len commands + 1);
               command =
                 (case maybe_end_cb_command_index of
                    None \<Rightarrow> None
                  | Some e \<Rightarrow>
                      (let c = take (e - (maybe_start_cb_command_index + 4)) (drop (maybe_start_cb_command_index + 4) text)
                       in if c \<in> set commands then Some c else None));
               start_index' =
                 (case (command, maybe_end_cb_command_index) of
                    (Some c, Some e) \<Rightarrow> e
                  | _ \<Rightarrow> maybe_start_cb_command_index + 4);
               maybe_codebraid_attr =
                 (if maybe_start_cb_command_index < 4
                     \<or> \<not> char_in_at text (maybe_start_cb_command_index - 1) before_attr_chars then False
                  else if command \<noteq> None
                          \<and> \<not> (case maybe_end_cb_command_index of Some e \<Rightarrow> char_in_at text e after_attr_chars
                                                                     | None \<Rightarrow> False) then False
                  else True)
           in (maybe_start_cb_command_index, line_num', maybe_codebraid_attr, command)
                # find_cb_from commands text start_index' line_num'))"
  by pat_completeness auto
termination
proof (relation "measure (\<lambda>(commands, text, start_index, line_num). length text - start_index)", goal_cases)
  case 1
  show ?case by simp
next
  case (2 commands src start_index line_num i l e c s)
  from 2(1) have b: "start_index \<le> i \<and> i + 4 \<le> length src" by (auto dest: find_from_bounds)
  have "i + 4 \<le> s"
    using 2 by (auto split: option.splits if_splits prod.splits dest: scan_command_end_bounds)
  with b have "length src - s < length src - start_index" by arith
  then show ?case by simp
qed

declare find_cb_from.simps [simp del]

definition find_cb_command :: "string list \<Rightarrow> string \<Rightarrow> cb_occurrence list" where
  "find_cb_command commands text = find_cb_from commands text 0 1"

text \<open>
  An entry of \<^verbatim>\<open>sources_cb\<close> is \<^verbatim>\<open>(source name, (index, line number, maybe_codebraid_attr,
  command))\<close>. The list is reversed, so that \<^verbatim>\<open>pop()\<close> takes the occurrences in text order: the
  top of the stack is the last element.
\<close>

type_synonym source_cb = "string \<times> cb_occurrence"

definition src_name_of :: "source_cb \<Rightarrow> string" where
  "src_name_of s = fst s"

definition src_line_number :: "source_cb \<Rightarrow> nat" where
  "src_line_number s = fst (snd (snd s))"

definition src_maybe_codebraid :: "source_cb \<Rightarrow> bool" where
  "src_maybe_codebraid s = fst (snd (snd (snd s)))"

definition src_command :: "source_cb \<Rightarrow> string option" where
  "src_command s = snd (snd (snd (snd s)))"

definition list_pop :: "'a list \<Rightarrow> py_error + 'a \<times> 'a list" where
  "list_pop xs = (if xs = [] then Inl IndexError else Inr (last xs, butlast xs))"

text \<open>
  The loop \<^verbatim>\<open>while <mismatch>: skipped.append(src_cb_i); src_cb_i = sources_cb.pop()\<close>, from
  the occurrence \<open>src_cb_i\<close> just popped: the occurrence at which it stops, and what is left
  of \<^verbatim>\<open>sources_cb\<close> and \<^verbatim>\<open>skipped\<close>. \<open>pop_matching\<close> is the \<^verbatim>\<open>pop()\<close> before it together
  with the loop, and \<open>replay\<close> the loop \<^verbatim>\<open>while skipped: sources_cb.append(skipped.pop())\<close>.
\<close>

function skip_while :: "(source_cb \<Rightarrow> bool) \<Rightarrow> source_cb \<Rightarrow> source_cb list \<Rightarrow> source_cb list
                          \<Rightarrow> py_error + source_cb \<times> source_cb list \<times> source_cb list" where
  "skip_while mismatch src_cb_i sources_cb skipped =
     (if mismatch src_cb_i then
        (if sources_cb = [] then Inl IndexError
         else skip_while mismatch (last sources_cb) (butlast sources_cb) (skipped @ [src_cb_i]))
      else Inr (src_cb_i, sources_cb, skipped))"
  by pat_completeness auto
termination
  by (relation "measure (\<lambda>(mismatch, src_cb_i, sources_cb, skipped). length sources_cb)") auto

declare skip_while.simps [simp del]

definition pop_matching :: "(source_cb \<Rightarrow> bool) \<Rightarrow> source_cb list \<Rightarrow> source_cb list
                              \<Rightarrow> py_error + source_cb \<times> source_cb list \<times> source_cb list" where
  "pop_matching mismatch sources_cb skipped =
     (case list_pop sources_cb of
        Inl e \<Rightarrow> Inl e
      | Inr (src_cb_i, rest) \<Rightarrow> skip_while mismatch src_cb_i rest skipped)"

definition replay :: "source_cb list \<Rightarrow> source_cb list \<Rightarrow> source_cb list" where
  "replay sources_cb skipped = sources_cb @ rev skipped"

text \<open>The assignment of the matched occurrence's name and line to the chunk.\<close>

definition assign_location :: "'a code_chunk_scheme \<Rightarrow> source_cb \<Rightarrow> 'a code_chunk_scheme" where
  "assign_location chunk s =
     chunk\<lparr>source_name := Some (src_name_of s),
           source_start_line_number :=
             Some (if truthy (inline chunk) then int (src_line_number s) else int (src_line_number s) + 1)\<rparr>"

text \<open>
  The branch for \<^verbatim>\<open>len(sources_cb) == len(self.code_chunks)\<close>: the loop over the chunks, then
  the loop over the code and raw nodes that freezes the raw ones (and, for concatenated
  sources, turns an end-of-file comment into a \<open>Null\<close> node).
\<close>

fun match_chunks :: "'a code_chunk_scheme list \<Rightarrow> source_cb list \<Rightarrow> py_error + 'a code_chunk_scheme list" where
  "match_chunks [] sources_cb = Inr []"
| "match_chunks (chunk # chunks) sources_cb =
     (case pop_matching (\<lambda>s. command chunk \<noteq> src_command s) sources_cb [] of
        Inl e \<Rightarrow> Inl e
      | Inr (src_cb_i, sources_cb', skipped) \<Rightarrow>
          (case match_chunks chunks (replay sources_cb' skipped) of
             Inl e \<Rightarrow> Inl e
           | Inr chunks' \<Rightarrow> Inr (assign_location chunk src_cb_i # chunks')))"

definition node_type_str :: "pydict \<Rightarrow> py_error + string" where
  "node_type_str node =
     bindE (dict_getitem node ''t'') (\<lambda>t. case t of PStr s \<Rightarrow> Inr s | _ \<Rightarrow> Inl AttributeError)"

definition starts_with :: "string \<Rightarrow> string \<Rightarrow> bool" where
  "starts_with p s = (take (length p) s = p)"

definition ends_with :: "string \<Rightarrow> string \<Rightarrow> bool" where
  "ends_with p s = (length p \<le> length s \<and> drop (length s - length p) s = p)"

text \<open>\<^verbatim>\<open>s.lower()\<close> on code points below 256.\<close>

definition lower_char :: "char \<Rightarrow> char" where
  "lower_char c =
     (let n = (of_char c :: nat) in
      if (65 \<le> n \<and> n \<le> 90) \<or> (192 \<le> n \<and> n \<le> 222 \<and> n \<noteq> 215) then char_of (n + 32) else c)"

definition is_eof_comment :: "pydict \<Rightarrow> py_error + bool" where
  "is_eof_comment node =
     bindE (dict_getitem node ''c'') (\<lambda>c.
     bindE (unpack2 c) (\<lambda>(node_format, node_contents).
     case node_format of
       PStr f \<Rightarrow> Inr (map lower_char f = ''html'' \<and> node_contents = PStr ''<!--codebraid.eof-->'')
     | _ \<Rightarrow> Inl AttributeError))"

definition null_node :: "pydict \<Rightarrow> pydict" where
  "null_node node = AList.delete ''c'' (dict_setitem node ''t'' (PStr ''Null''))"

fun freeze_raw_nodes :: "string option \<Rightarrow> pydict list \<Rightarrow> py_error + pydict list" where
  "freeze_raw_nodes single_source_name [] = Inr []"
| "freeze_raw_nodes single_source_name (node # nodes) =
     (case bindE (node_type_str node) (\<lambda>node_type.
             if starts_with ''Raw'' node_type then
               bindE (if single_source_name = None then is_eof_comment node else Inr False) (\<lambda>eof.
               if eof then Inr (null_node node) else freeze_node node)
             else Inr node) of
        Inl e \<Rightarrow> Inl e
      | Inr node' \<Rightarrow>
          (case freeze_raw_nodes single_source_name nodes of
             Inl e \<Rightarrow> Inl e
           | Inr nodes' \<Rightarrow> Inr (node' # nodes')))"

text \<open>
  The branch for differing lengths. The state of its loop over the nodes: the occurrence
  stack, the stack of source names, the chunks that \<^verbatim>\<open>code_chunk_iter\<close> has still to give, and
  the chunks it has given, with their locations. A node comes with the flag
  \<^verbatim>\<open>id(node) in codebraid_node_set\<close>.
\<close>

record 'a match_state =
  sources_cb :: "source_cb list"
  source_names_stack :: "string list"
  chunk_iter :: "'a code_chunk_scheme list"
  located :: "'a code_chunk_scheme list"

text \<open>The \<^verbatim>\<open>for ... in node_cb\<close> loops: \<^verbatim>\<open>skipped\<close> is replayed only after the loop.\<close>

fun consume_node_cb :: "(cb_occurrence \<Rightarrow> source_cb \<Rightarrow> bool) \<Rightarrow> cb_occurrence list \<Rightarrow> source_cb list \<Rightarrow> source_cb list
                          \<Rightarrow> py_error + source_cb list \<times> source_cb list" where
  "consume_node_cb mismatch [] stack skipped = Inr (stack, skipped)"
| "consume_node_cb mismatch (node_occ # node_cb) stack skipped =
     (case pop_matching (mismatch node_occ) stack skipped of
        Inl e \<Rightarrow> Inl e
      | Inr (src_cb_i, stack', skipped') \<Rightarrow> consume_node_cb mismatch node_cb stack' skipped')"

definition inline_mismatch :: "cb_occurrence \<Rightarrow> source_cb \<Rightarrow> bool" where
  "inline_mismatch node_occ s = (snd (snd (snd node_occ)) \<noteq> src_command s)"

definition block_mismatch :: "cb_occurrence \<Rightarrow> source_cb \<Rightarrow> bool" where
  "block_mismatch node_occ s =
     (snd (snd (snd node_occ)) \<noteq> src_command s \<or> fst (snd (snd node_occ)) \<noteq> src_maybe_codebraid s)"

definition chunk_mismatch :: "'a code_chunk_scheme \<Rightarrow> source_cb \<Rightarrow> bool" where
  "chunk_mismatch chunk s = (command chunk \<noteq> src_command s \<or> \<not> src_maybe_codebraid s)"

definition node_text :: "pydict \<Rightarrow> py_error + string" where
  "node_text node =
     bindE (dict_getitem node ''c'') (\<lambda>c.
     bindE (py_index c 1) (\<lambda>text. case text of PStr s \<Rightarrow> Inr s | _ \<Rightarrow> Inl AttributeError))"

definition drop_source :: "string \<Rightarrow> source_cb list \<Rightarrow> source_cb list" where
  "drop_source current_source_name stack = rev (dropWhile (\<lambda>s. fst s = current_source_name) (rev stack))"

text \<open>The three parts of the loop body that read the occurrence stack: the occurrences inside
  inline code (before the attributes in the text), the chunk itself, and the occurrences
  inside a block's code (after the attributes).\<close>

definition consume_inside :: "(cb_occurrence \<Rightarrow> source_cb \<Rightarrow> bool) \<Rightarrow> bool \<Rightarrow> cb_occurrence list \<Rightarrow> source_cb list
                               \<Rightarrow> py_error + source_cb list" where
  "consume_inside mismatch enabled node_cb stack =
     (if node_cb \<noteq> [] \<and> enabled
      then bindE (consume_node_cb mismatch node_cb stack []) (\<lambda>(stack', skipped). Inr (replay stack' skipped))
      else Inr stack)"

definition locate_next_chunk :: "bool \<Rightarrow> 'a match_state \<Rightarrow> source_cb list \<Rightarrow> py_error + 'a match_state" where
  "locate_next_chunk is_chunk st stack =
     (if is_chunk then
        (case chunk_iter st of
           [] \<Rightarrow> Inl StopIteration
         | chunk # chunks \<Rightarrow>
             bindE (pop_matching (chunk_mismatch chunk) stack []) (\<lambda>(src_cb_i, stack', skipped).
             Inr (st\<lparr>sources_cb := replay stack' skipped, chunk_iter := chunks,
                      located := located st @ [assign_location chunk src_cb_i]\<rparr>)))
      else Inr (st\<lparr>sources_cb := stack\<rparr>))"

definition match_node :: "string list \<Rightarrow> string option \<Rightarrow> 'a match_state \<Rightarrow> pydict \<times> bool
                            \<Rightarrow> py_error + 'a match_state \<times> pydict" where
  "match_node commands single_source_name st tagged =
     (case tagged of (node, is_chunk) \<Rightarrow>
      bindE (node_type_str node) (\<lambda>node_type.
      bindE (if single_source_name = None \<and> starts_with ''Raw'' node_type then is_eof_comment node else Inr False) (\<lambda>eof.
      if eof then
        bindE (list_pop (source_names_stack st)) (\<lambda>(current_source_name, names).
        Inr (st\<lparr>source_names_stack := names, sources_cb := drop_source current_source_name (sources_cb st)\<rparr>,
             null_node node))
      else
        bindE (node_text node) (\<lambda>text.
        let node_cb = find_cb_command commands text in
        bindE (consume_inside inline_mismatch (\<not> ends_with ''Block'' node_type) node_cb (sources_cb st)) (\<lambda>stack1.
        bindE (locate_next_chunk is_chunk st stack1) (\<lambda>st2.
        bindE (consume_inside block_mismatch (ends_with ''Block'' node_type) node_cb (sources_cb st2)) (\<lambda>stack3.
        bindE (if starts_with ''Raw'' node_type then freeze_node node else Inr node) (\<lambda>node'.
        Inr (st2\<lparr>sources_cb := stack3\<rparr>, node')))))))))"

fun match_nodes :: "string list \<Rightarrow> string option \<Rightarrow> 'a match_state \<Rightarrow> (pydict \<times> bool) list
                      \<Rightarrow> py_error + 'a match_state \<times> pydict list" where
  "match_nodes commands single_source_name st [] = Inr (st, [])"
| "match_nodes commands single_source_name st (tagged # rest) =
     (case match_node commands single_source_name st tagged of
        Inl e \<Rightarrow> Inl e
      | Inr (st', node') \<Rightarrow>
          (case match_nodes commands single_source_name st' rest of
             Inl e \<Rightarrow> Inl e
           | Inr (st'', nodes') \<Rightarrow> Inr (st'', node' # nodes')))"

text \<open>
  Membership in \<^verbatim>\<open>codebraid_node_set\<close>. The loop that creates the chunks adds \<^verbatim>\<open>id(node)\<close> for
  the nodes with \<^verbatim>\<open>node_type.startswith('Code')\<close> and
  \<^verbatim>\<open>any(c.startswith('cb.') for c in node['c'][0][1])\<close>; the walker yields every node object
  once, so the flag goes with the node's place in \<^verbatim>\<open>code_raw_node_tuples\<close>.
\<close>

fun any_cb_class :: "pyval list \<Rightarrow> py_error + bool" where
  "any_cb_class [] = Inr False"
| "any_cb_class (c # cs) =
     (case c of
        PStr s \<Rightarrow> if starts_with ''cb.'' s then Inr True else any_cb_class cs
      | _ \<Rightarrow> Inl AttributeError)"

definition in_codebraid_node_set :: "pydict \<Rightarrow> py_error + bool" where
  "in_codebraid_node_set node =
     bindE (node_type_str node) (\<lambda>node_type.
     if starts_with ''Code'' node_type then
       bindE (dict_getitem node ''c'') (\<lambda>c.
       bindE (py_index c 0) (\<lambda>c0.
       bindE (py_index c0 1) (\<lambda>classes.
       bindE (py_iter classes) any_cb_class)))
     else Inr False)"

fun tag_nodes :: "pydict list \<Rightarrow> py_error + (pydict \<times> bool) list" where
  "tag_nodes [] = Inr []"
| "tag_nodes (node # nodes) =
     (case in_codebraid_node_set node of
        Inl e \<Rightarrow> Inl e
      | Inr is_chunk \<Rightarrow>
          (case tag_nodes nodes of
             Inl e \<Rightarrow> Inl e
           | Inr tagged \<Rightarrow> Inr ((node, is_chunk) # tagged)))"

text \<open>
  \<^verbatim>\<open>_load_and_process_initial_ast\<close> from the list of code and raw nodes on, without the
  construction of the chunks: \<open>nodes\<close> is \<^verbatim>\<open>code_raw_node_tuples\<close>, and \<open>code_chunks\<close> is
  \<^verbatim>\<open>self.code_chunks\<close> as the loop that creates the chunks leaves it, that is the chunks of
  earlier calls followed by one chunk for every node of this call in \<^verbatim>\<open>codebraid_node_set\<close>.
  Then come the occurrences of \<^verbatim>\<open>.cb.\<close> in the source (the given string for a single source,
  every entry of \<^verbatim>\<open>self.sources\<close> otherwise) and the two branches. The result is the chunks
  and the nodes after the mutations.
\<close>

definition occurrences :: "string list \<Rightarrow> string option \<Rightarrow> string \<Rightarrow> (string \<times> string) list \<Rightarrow> source_cb list" where
  "occurrences commands single_source_name source_string sources =
     (case single_source_name of
        Some name \<Rightarrow> map (Pair name) (find_cb_command commands source_string)
      | None \<Rightarrow> concat (map (\<lambda>(src_name, src_string). map (Pair src_name) (find_cb_command commands src_string)) sources))"

definition locate_chunks ::
  "string list \<Rightarrow> bool \<Rightarrow> string option \<Rightarrow> string \<Rightarrow> (string \<times> string) list
     \<Rightarrow> 'a code_chunk_scheme list \<Rightarrow> pydict list
     \<Rightarrow> py_error + 'a code_chunk_scheme list \<times> pydict list" where
  "locate_chunks commands io_map single_source_name source_string sources code_chunks nodes =
     bindE (tag_nodes nodes) (\<lambda>tagged_nodes.
     let stack = rev (occurrences commands single_source_name source_string sources);
         names = rev (case single_source_name of Some name \<Rightarrow> [name] | None \<Rightarrow> map fst sources)
     in
     if io_map then Inl NotImplementedError
     else if length stack = length code_chunks then
       bindE (match_chunks code_chunks stack) (\<lambda>chunks'.
       bindE (freeze_raw_nodes single_source_name nodes) (\<lambda>nodes'.
       Inr (chunks', nodes')))
     else
       bindE (match_nodes commands single_source_name
                \<lparr>sources_cb = stack, source_names_stack = names, chunk_iter = code_chunks, located = []\<rparr>
                tagged_nodes) (\<lambda>(st, nodes').
       Inr (located st @ chunk_iter st, nodes')))"

text \<open>
  What the flags satisfy, as a property of a tagged list: only nodes whose kind starts with
  \<^verbatim>\<open>Code\<close> are flagged.
\<close>

definition code_tagged :: "(pydict \<times> bool) list \<Rightarrow> bool" where
  "code_tagged tagged_nodes =
     list_all (\<lambda>(node, is_chunk). is_chunk \<longrightarrow> (\<exists>t. node_type_str node = Inr t \<and> starts_with ''Code'' t)) tagged_nodes"

text \<open>
  Scenario A of the specification: the inline code \<^verbatim>\<open>`x+1`{.cb.run}\<close> on line 5 of a
  document with no notes, its \<open>Code\<close> node, and the chunk created for it.
\<close>

definition scenario_source :: string where
  "scenario_source = ''l1'' @ [CHR 0x0A] @ ''l2'' @ [CHR 0x0A] @ ''l3'' @ [CHR 0x0A] @ ''l4'' @ [CHR 0x0A]
                       @ ''`x+1`{.cb.run}'' @ [CHR 0x0A]"

definition scenario_node :: pydict where
  "scenario_node = [(''t'', PStr ''Code''), (''c'', PList [PList [PStr [], PList [PStr ''cb.run''], PList []], PStr ''x+1''])]"

definition scenario_chunk :: "string \<Rightarrow> code_chunk" where
  "scenario_chunk cmd =
     \<lparr>command = Some cmd, code = ''x+1'', source_name = None, source_start_line_number = None,
      inline = Some True, options = cb_default_inline_options, source_errors = [], source_warnings = []\<rparr>"

text \<open>
  A second source for a conversion with \<^verbatim>\<open>pandoc_file_scope\<close>: the file \<^verbatim>\<open>b.md\<close> holds the one
  line \<^verbatim>\<open>`x+1`{.cb.run}\<close>, and \<^verbatim>\<open>self.code_chunks\<close> already holds the chunk of the first
  source, located at line 5 of \<^verbatim>\<open>a.md\<close>.
\<close>

definition second_source :: string where
  "second_source = ''`x+1`{.cb.run}'' @ [CHR 0x0A]"

definition first_source_chunk :: code_chunk where
  "first_source_chunk = (scenario_chunk ''run'')\<lparr>source_name := Some ''a.md'', source_start_line_number := Some 5\<rparr>"

section \<open>Chunk construction from a Pandoc node (converters/pandoc.py)\<close>

text \<open>
  \<^verbatim>\<open>int(value)\<close>: an integer is itself, a boolean is 0 or 1, a string is parsed (surrounding
  whitespace, a sign, decimal digits with single underscores between them), anything else is
  a \<^verbatim>\<open>TypeError\<close>. The whitespace that \<^verbatim>\<open>int\<close> skips is the ASCII whitespace and, of the code
  points from 128 to 255, \<^verbatim>\<open>\x85\<close> and \<^verbatim>\<open>\xa0\<close>; the separators \<^verbatim>\<open>\x1c\<close> to \<^verbatim>\<open>\x1f\<close> are not
  skipped (\<^verbatim>\<open>int('7\x1f')\<close> is a \<^verbatim>\<open>ValueError\<close>).
\<close>

definition is_space :: "char \<Rightarrow> bool" where
  "is_space c = (c \<in> set [CHR '' '', CHR 0x09, CHR 0x0A, CHR 0x0B, CHR 0x0C, CHR 0x0D, CHR 0x85, CHR 0xA0])"

definition strip :: "string \<Rightarrow> string" where
  "strip s = rev (dropWhile is_space (rev (dropWhile is_space s)))"

definition is_digit :: "char \<Rightarrow> bool" where
  "is_digit c = (48 \<le> (of_char c :: nat) \<and> (of_char c :: nat) \<le> 57)"

fun parse_digits :: "string \<Rightarrow> nat \<Rightarrow> bool \<Rightarrow> nat option" where
  "parse_digits [] acc after_digit = (if after_digit then Some acc else None)"
| "parse_digits (c # cs) acc after_digit =
     (if is_digit c then parse_digits cs (10 * acc + (of_char c - 48)) True
      else if c = CHR ''_'' \<and> after_digit then parse_digits cs acc False
      else None)"

definition int_of_string :: "string \<Rightarrow> int option" where
  "int_of_string s =
     (case strip s of
        [] \<Rightarrow> None
      | c # cs \<Rightarrow>
          if c = CHR ''-'' then map_option (\<lambda>n. - int n) (parse_digits cs 0 False)
          else if c = CHR ''+'' then map_option int (parse_digits cs 0 False)
          else map_option int (parse_digits (c # cs) 0 False))"

fun py_int :: "pyval \<Rightarrow> py_error + int" where
  "py_int (PInt i) = Inr i"
| "py_int (PBool b) = Inr (if b then 1 else 0)"
| "py_int (PStr s) = (case int_of_string s of None \<Rightarrow> Inl ValueError | Some i \<Rightarrow> Inr i)"
| "py_int v = Inl TypeError"

text \<open>
  The state of the preprocessing of classes and key-value pairs: the chunk's error and
  warning lists and the dict \<^verbatim>\<open>options\<close>.
\<close>

record preprocessing =
  pre_errors :: "string list"
  pre_warnings :: "string list"
  pre_options :: "(string \<times> pyval) list"

definition pre_error :: "string \<Rightarrow> preprocessing \<Rightarrow> preprocessing" where
  "pre_error msg p = p\<lparr>pre_errors := pre_errors p @ [msg]\<rparr>"

definition pre_warning :: "string \<Rightarrow> preprocessing \<Rightarrow> preprocessing" where
  "pre_warning msg p = p\<lparr>pre_warnings := pre_warnings p @ [msg]\<rparr>"

definition pre_set :: "string \<Rightarrow> pyval \<Rightarrow> preprocessing \<Rightarrow> preprocessing" where
  "pre_set k v p = p\<lparr>pre_options := AList.update k v (pre_options p)\<rparr>"

definition has_option :: "preprocessing \<Rightarrow> string \<Rightarrow> bool" where
  "has_option p k = (map_of (pre_options p) k \<noteq> None)"

subsection \<open>Class processors\<close>

text \<open>A class name that is not a string has no \<^verbatim>\<open>startswith\<close>.\<close>

definition class_lang_or_unknown :: "preprocessing \<Rightarrow> nat \<Rightarrow> pyval \<Rightarrow> py_error + preprocessing" where
  "class_lang_or_unknown p class_index class_name =
     (if has_option p ''lang'' then
        (case class_name of
           PStr s \<Rightarrow>
             if starts_with ''cb.'' s
             then Inr (pre_error (''Unknown or unsupported Codebraid command '' @ dq @ s @ dq) p)
             else Inr (pre_error ''Unknown non-Codebraid class'' p)
         | _ \<Rightarrow> Inl AttributeError)
      else if class_index > 0 then
        (case class_name of
           PStr s \<Rightarrow>
             if starts_with ''cb.'' s
             then Inr (pre_error (''Unknown or unsupported Codebraid command '' @ dq @ s @ dq) p)
             else Inr (pre_error (''The language/format '' @ dq @ s @ dq @ '' must be the first class for code chunk'') p)
         | _ \<Rightarrow> Inl AttributeError)
      else Inr (pre_set ''lang'' class_name p))"

definition class_codebraid_command :: "preprocessing \<Rightarrow> nat \<Rightarrow> string \<Rightarrow> py_error + preprocessing" where
  "class_codebraid_command p class_index class_name =
     (if has_option p ''codebraid_command''
      then Inr (pre_error ''Only one Codebraid command can be applied per code chunk'' p)
      else Inr (pre_set ''codebraid_command'' (PStr (snd (split_first CHR ''.'' class_name))) p))"

definition class_line_anchors :: "preprocessing \<Rightarrow> nat \<Rightarrow> string \<Rightarrow> py_error + preprocessing" where
  "class_line_anchors p class_index class_name =
     (if has_option p ''line_anchors''
      then Inr (pre_warning ''Duplicate line anchor class for code chunk'' p)
      else Inr (pre_set ''line_anchors'' (PBool True) p))"

definition class_line_numbers :: "preprocessing \<Rightarrow> nat \<Rightarrow> string \<Rightarrow> py_error + preprocessing" where
  "class_line_numbers p class_index class_name =
     (if has_option p ''line_numbers''
      then Inr (pre_warning ''Duplicate line numbering class for code chunk'' p)
      else Inr (pre_set ''line_numbers'' (PBool True) p))"

definition line_anchors_names :: "string list" where
  "line_anchors_names = [''lineAnchors'', ''line-anchors'', ''line_anchors'']"

definition line_numbers_names :: "string list" where
  "line_numbers_names = [''line_numbers'', ''numberLines'', ''number-lines'', ''number_lines'']"

text \<open>
  \<^verbatim>\<open>self._class_processors[c](self, options, n, c)\<close>. The table is a \<^verbatim>\<open>defaultdict\<close> built from
  three dicts, a later one overriding an earlier one, so the last is tested first; its default
  is \<^verbatim>\<open>class_lang_or_unknown\<close>. A list or a dict is not hashable. \<open>commands\<close> is
  \<^verbatim>\<open>CodeChunk.commands\<close>.
\<close>

definition class_processors :: "string list \<Rightarrow> preprocessing \<Rightarrow> nat \<Rightarrow> pyval \<Rightarrow> py_error + preprocessing" where
  "class_processors commands p n c =
     (case c of
        PStr s \<Rightarrow>
          if s \<in> set line_numbers_names then class_line_numbers p n s
          else if s \<in> set line_anchors_names then class_line_anchors p n s
          else if s \<in> set (map (\<lambda>k. ''cb.'' @ k) commands) then class_codebraid_command p n s
          else class_lang_or_unknown p n c
      | PList xs \<Rightarrow> Inl TypeError
      | PDict d \<Rightarrow> Inl TypeError
      | _ \<Rightarrow> class_lang_or_unknown p n c)"

fun process_classes :: "string list \<Rightarrow> preprocessing \<Rightarrow> nat \<Rightarrow> pyval list \<Rightarrow> py_error + preprocessing" where
  "process_classes commands p n [] = Inr p"
| "process_classes commands p n (c # cs) =
     (case class_processors commands p n c of
        Inl e \<Rightarrow> Inl e
      | Inr p' \<Rightarrow> process_classes commands p' (Suc n) cs)"

subsection \<open>Key-value processors\<close>

definition duplicate_attribute_msg :: "string \<Rightarrow> string" where
  "duplicate_attribute_msg key = ''Duplicate '' @ dq @ key @ dq @ '' attribute for code chunk''"

definition true_or_false_msg :: "string \<Rightarrow> string" where
  "true_or_false_msg key = ''Attribute '' @ dq @ key @ dq @ '' must be true or false for code chunk''"

definition namespace_keywords :: "string list" where
  "namespace_keywords = [''include'']"

definition keyval_generic :: "preprocessing \<Rightarrow> string \<Rightarrow> pyval \<Rightarrow> py_error + preprocessing" where
  "keyval_generic p key v =
     (if has_option p key then Inr (pre_error (duplicate_attribute_msg key) p)
      else if key \<in> set namespace_keywords
        then Inr (pre_error (''Invalid key '' @ dq @ key @ dq @ '' for code chunk'') p)
      else Inr (pre_set key v p))"

definition keyval_bool :: "preprocessing \<Rightarrow> string \<Rightarrow> pyval \<Rightarrow> py_error + preprocessing" where
  "keyval_bool p key v =
     (if has_option p key then Inr (pre_error (duplicate_attribute_msg key) p)
      else if v \<noteq> PStr ''true'' \<and> v \<noteq> PStr ''false'' then Inr (pre_error (true_or_false_msg key) p)
      else Inr (pre_set key (PBool (v = PStr ''true'')) p))"

definition keyval_int :: "preprocessing \<Rightarrow> string \<Rightarrow> pyval \<Rightarrow> py_error + preprocessing" where
  "keyval_int p key v =
     (if has_option p key then Inr (pre_error (duplicate_attribute_msg key) p)
      else (case py_int v of
              Inl e \<Rightarrow> Inr (pre_error (''Attribute '' @ dq @ key @ dq @ '' must be integer for code chunk'') p)
            | Inr i \<Rightarrow> Inr (pre_set key (PInt i) p)))"

definition keyval_first_number :: "preprocessing \<Rightarrow> string \<Rightarrow> pyval \<Rightarrow> py_error + preprocessing" where
  "keyval_first_number p key v =
     (if has_option p ''first_number''
      then Inr (pre_warning ''Duplicate first line number attribute for code chunk'' p)
      else Inr (pre_set ''first_number'' (case py_int v of Inl e \<Rightarrow> v | Inr i \<Rightarrow> PInt i) p))"

definition keyval_line_anchors :: "preprocessing \<Rightarrow> string \<Rightarrow> pyval \<Rightarrow> py_error + preprocessing" where
  "keyval_line_anchors p key v =
     (if has_option p ''line_anchors''
      then Inr (pre_warning ''Duplicate line anchor attribute for code chunk'' p)
      else if v \<noteq> PStr ''true'' \<and> v \<noteq> PStr ''false'' then Inr (pre_warning (true_or_false_msg key) p)
      else Inr (pre_set ''line_anchors'' (PBool (v = PStr ''true'')) p))"

definition keyval_line_numbers :: "preprocessing \<Rightarrow> string \<Rightarrow> pyval \<Rightarrow> py_error + preprocessing" where
  "keyval_line_numbers p key v =
     (if has_option p ''line_numbers''
      then Inr (pre_warning ''Duplicate line numbering attribute for code chunk'' p)
      else if v \<noteq> PStr ''true'' \<and> v \<noteq> PStr ''false'' then Inr (pre_warning (true_or_false_msg key) p)
      else Inr (pre_set ''line_numbers'' (PBool (v = PStr ''true'')) p))"

text \<open>
  \<^verbatim>\<open>keyval_namespace\<close>: the key is split at its first \<^verbatim>\<open>.\<close>, or else at its first \<^verbatim>\<open>_\<close> (the
  unpacking fails when it has neither); the sub-option goes into the dict stored under the
  namespace, which is created when missing. What is stored under the namespace is a dict
  unless some other code put it there; on anything else the membership test or the item
  assignment raises.
\<close>

definition keyval_namespace :: "preprocessing \<Rightarrow> string \<Rightarrow> pyval \<Rightarrow> py_error + preprocessing" where
  "keyval_namespace p key v =
     (if CHR ''.'' \<notin> set key \<and> CHR ''_'' \<notin> set key then Inl ValueError
      else
        (case (if CHR ''.'' \<in> set key then split_first CHR ''.'' key else split_first CHR ''_'' key) of
           (namespace, sub_key) \<Rightarrow>
             (case map_of (pre_options p) namespace of
                None \<Rightarrow> Inr (pre_set namespace (PDict [(sub_key, v)]) p)
              | Some (PDict sub_options) \<Rightarrow>
                  if map_of sub_options sub_key \<noteq> None then Inr (pre_error (duplicate_attribute_msg key) p)
                  else Inr (pre_set namespace (PDict (AList.update sub_key v sub_options)) p)
              | Some other \<Rightarrow>
                  (case py_contains other sub_key of
                     Inl e \<Rightarrow> Inl e
                   | Inr found \<Rightarrow> if found then Inr (pre_error (duplicate_attribute_msg key) p) else Inl TypeError))))"

definition display_names :: "string list" where
  "display_names = ['''', ''markup'', ''copied_markup'', ''code'', ''stdout'', ''stderr'']"

definition display_keys :: "string \<Rightarrow> string list" where
  "display_keys suffix = map (\<lambda>dsp. if dsp \<noteq> [] then dsp @ ''_'' @ suffix else suffix) display_names"

definition first_number_names :: "string list" where
  "first_number_names = [''first_number'', ''startFrom'', ''start-from'', ''start_from'']"

text \<open>
  \<^verbatim>\<open>self._kv_processors[k](self, options, k, v)\<close>. The table is one dict display; where two
  entries had the same key the later would win, so the entries are tested last to first. Its
  default is \<^verbatim>\<open>keyval_generic\<close>.

  Modelled from the spec: \<^verbatim>\<open>Include.keywords\<close>, the names of the sub-options of the
  \<^verbatim>\<open>include\<close> family, is not in the sources (the spec: ``namespaced options (e.g., an
  "include" family) route into a nested sub-mapping''). It is the parameter
  \<open>include_keywords\<close>.
\<close>

definition kv_processors :: "string list \<Rightarrow> string \<Rightarrow> preprocessing \<Rightarrow> string \<Rightarrow> pyval \<Rightarrow> py_error + preprocessing" where
  "kv_processors include_keywords k =
     (if k \<in> set (display_keys ''tab_size'') then (\<lambda>p. keyval_int p)
      else if k \<in> set (display_keys ''rewrap_width'') then (\<lambda>p. keyval_int p)
      else if k \<in> set (display_keys ''rewrap_lines'') then (\<lambda>p. keyval_bool p)
      else if k = ''outside_main'' then (\<lambda>p. keyval_bool p)
      else if k = ''name'' then (\<lambda>p. keyval_generic p)
      else if k = ''live_output'' then (\<lambda>p. keyval_bool p)
      else if k \<in> set line_numbers_names then (\<lambda>p. keyval_line_numbers p)
      else if k \<in> set line_anchors_names then (\<lambda>p. keyval_line_anchors p)
      else if k = ''jupyter_timeout'' then (\<lambda>p. keyval_int p)
      else if k \<in> set (map (\<lambda>kw. ''include_'' @ kw) include_keywords) then (\<lambda>p. keyval_namespace p)
      else if k \<in> set first_number_names then (\<lambda>p. keyval_first_number p)
      else if k \<in> set (display_keys ''expand_tabs'') then (\<lambda>p. keyval_bool p)
      else if k = ''example'' then (\<lambda>p. keyval_bool p)
      else if k = ''copy'' then (\<lambda>p. keyval_generic p)
      else if k = ''complete'' then (\<lambda>p. keyval_bool p)
      else (\<lambda>p. keyval_generic p))"

text \<open>
  The loop \<^verbatim>\<open>for k, v in node_kvpairs\<close>. Pandoc's JSON has a string for every key; for a key
  that is a list or a dict the table lookup raises \<^verbatim>\<open>TypeError\<close>, and the model raises it for
  every key that is not a string (the dict \<^verbatim>\<open>options\<close> of the model has string keys).
\<close>

fun process_kvpairs :: "string list \<Rightarrow> preprocessing \<Rightarrow> pyval list \<Rightarrow> py_error + preprocessing" where
  "process_kvpairs include_keywords p [] = Inr p"
| "process_kvpairs include_keywords p (kv # kvs) =
     (case unpack2 kv of
        Inl e \<Rightarrow> Inl e
      | Inr (PStr k, v) \<Rightarrow>
          (case kv_processors include_keywords k p k v of
             Inl e \<Rightarrow> Inl e
           | Inr p' \<Rightarrow> process_kvpairs include_keywords p' kvs)
      | Inr (other, v) \<Rightarrow> Inl TypeError)"

subsection \<open>The constructor\<close>

definition unpack3 :: "pyval \<Rightarrow> py_error + pyval \<times> pyval \<times> pyval" where
  "unpack3 v = bindE (py_iter v) (\<lambda>xs. case xs of [a, b, c] \<Rightarrow> Inr (a, b, c) | _ \<Rightarrow> Inl ValueError)"

text \<open>\<^verbatim>\<open>node[k]\<close> for a node given by value: only a dict has string keys.\<close>

definition node_getitem :: "pyval \<Rightarrow> string \<Rightarrow> py_error + pyval" where
  "node_getitem nd k = (case nd of PDict d \<Rightarrow> dict_getitem d k | _ \<Rightarrow> Inl TypeError)"

text \<open>
  The arguments that \<^verbatim>\<open>CodeChunk.__init__\<close> gets from the preprocessed options. The command
  is a string or \<^verbatim>\<open>None\<close>, the code a string or a list of strings; the model raises
  \<^verbatim>\<open>TypeError\<close> for a command of another type (which the source would print into an error
  message) and for a list with an element that is not a string, and \<^verbatim>\<open>AttributeError\<close> for
  code without \<^verbatim>\<open>splitlines\<close>.
\<close>

definition command_arg :: "pyval option \<Rightarrow> py_error + string option" where
  "command_arg v = (case v of None \<Rightarrow> Inr None | Some PNone \<Rightarrow> Inr None | Some (PStr s) \<Rightarrow> Inr (Some s)
                            | Some other \<Rightarrow> Inl TypeError)"

definition str_of :: "pyval \<Rightarrow> string option" where
  "str_of v = (case v of PStr s \<Rightarrow> Some s | _ \<Rightarrow> None)"

definition code_arg_of :: "pyval \<Rightarrow> py_error + code_arg" where
  "code_arg_of v =
     (case v of
        PStr s \<Rightarrow> Inr (CodeStr s)
      | PList xs \<Rightarrow> if list_all (\<lambda>x. str_of x \<noteq> None) xs then Inr (CodeLines (map (\<lambda>x. the (str_of x)) xs))
                     else Inl TypeError
      | _ \<Rightarrow> Inl AttributeError)"

text \<open>\<^verbatim>\<open>len(x)\<close>.\<close>

definition py_len :: "pyval \<Rightarrow> py_error + nat" where
  "py_len v = (case v of PList xs \<Rightarrow> Inr (length xs) | PStr s \<Rightarrow> Inr (length s) | PDict d \<Rightarrow> Inr (length d)
                       | _ \<Rightarrow> Inl TypeError)"

text \<open>
  The test of the \<^verbatim>\<open>example\<close> option of an inline chunk:
  \<^verbatim>\<open>parent_node['t'] not in ('Plain', 'Para') or 'codebraid_pseudonode' in parent_node or
  len(parent_node_list) > 1\<close>.
\<close>

definition example_misplaced :: "pyval \<Rightarrow> pyval \<Rightarrow> py_error + bool" where
  "example_misplaced parent parent_list =
     bindE (node_getitem parent ''t'') (\<lambda>t.
     if t \<noteq> PStr ''Plain'' \<and> t \<noteq> PStr ''Para'' then Inr True
     else bindE (py_contains parent ''codebraid_pseudonode'') (\<lambda>pseudo.
          if pseudo then Inr True
          else bindE (py_len parent_list) (\<lambda>n. Inr (n > 1))))"

text \<open>The classes that the code node of the output gets.\<close>

definition lang_classes :: "pyval option \<Rightarrow> string option \<Rightarrow> py_error + pyval list" where
  "lang_classes lang cmd =
     (case lang of
        None \<Rightarrow> Inr []
      | Some PNone \<Rightarrow> Inr []
      | Some (PStr s) \<Rightarrow>
          Inr ([PStr (if ends_with ''_repl'' s then hd (split_char CHR ''_'' s) else s)]
               @ (if cmd = Some ''repl'' then [PStr ''repl''] else []))
      | Some other \<Rightarrow> Inl AttributeError)"

text \<open>
  \<^verbatim>\<open>PandocCodeChunk.__init__\<close>: the chunk and the module state after the constructor, or the
  exception. \<^verbatim>\<open>self.options['example']\<close> and \<^verbatim>\<open>self.options.get('code_line_numbers', False)\<close>
  read the mapping that \<^verbatim>\<open>CodeChunk.__init__\<close> has built.
\<close>

definition PandocCodeChunk_init ::
  "string list \<Rightarrow> string list \<Rightarrow> module_state \<Rightarrow> pyval \<Rightarrow> pyval \<Rightarrow> pyval \<Rightarrow> nat \<Rightarrow> string option \<Rightarrow> int option
     \<Rightarrow> py_error + pandoc_code_chunk \<times> module_state" where
  "PandocCodeChunk_init commands include_keywords m nd parent parent_list parent_index src_name src_line =
     bindE (node_getitem nd ''c'') (\<lambda>c.
     bindE (py_index c 0) (\<lambda>c0.
     bindE (unpack3 c0) (\<lambda>(nid, classes, kvpairs).
     bindE (py_index c 1) (\<lambda>code_v.
     bindE (node_getitem nd ''t'') (\<lambda>t.
     let inl = (t = PStr ''Code'') in
     bindE (py_iter classes) (\<lambda>class_list.
     bindE (process_classes commands \<lparr>pre_errors = [], pre_warnings = [], pre_options = []\<rparr> 0 class_list) (\<lambda>p1.
     bindE (py_iter kvpairs) (\<lambda>kv_list.
     bindE (process_kvpairs include_keywords p1 kv_list) (\<lambda>p2.
     let codebraid_command = map_of (pre_options p2) ''codebraid_command'';
         line_anchors = map_of (pre_options (p2)) ''lineAnchors'';
         opts = AList.delete ''lineAnchors'' (AList.delete ''codebraid_command'' (pre_options p2))
     in
     bindE (command_arg codebraid_command) (\<lambda>cmd.
     bindE (code_arg_of code_v) (\<lambda>code_in.
     bindE (CodeChunk_init m (pre_errors p2) (pre_warnings p2) cmd code_in opts src_name src_line (Some inl)) (\<lambda>(ch, m').
     bindE (if inl then
              bindE (option_getitem m' (options ch) ''example'') (\<lambda>example.
              if py_truthy example then
                bindE (example_misplaced parent parent_list) (\<lambda>bad.
                if bad then
                  Inr (ch\<lparr>source_errors :=
                             (''Option '' @ dq @ ''example'' @ dq @ '' is only allowed for inline code that is in a paragraph by itself'')
                               # source_errors ch,
                          options := AList.update ''example'' (OVal (PBool False)) (options ch)\<rparr>)
                else Inr ch)
              else Inr ch)
            else Inr ch) (\<lambda>ch1.
     bindE (lang_classes (map_of opts ''lang'') (command ch1)) (\<lambda>classes1.
     let classes2 = classes1 @ (if (case line_anchors of None \<Rightarrow> False | Some v \<Rightarrow> py_truthy v)
                                then [PStr ''lineAnchors''] else []);
         numbered = (case map_of (options ch1) ''code_line_numbers'' of
                       None \<Rightarrow> False
                     | Some (OVal v) \<Rightarrow> py_truthy v
                     | Some (ORef r) \<Rightarrow> show_contents m' r \<noteq> []);
         classes3 = classes2 @ (if numbered then [PStr ''numberLines''] else [])
     in
     Inr (code_chunk.extend ch1
            (pandoc_code_chunk.fields nd parent parent_list parent_index nid classes kvpairs
               nid classes3 [] None None),
          m')))))))))))))))"

text \<open>
  Scenario B of the specification: a code block with the command class \<^verbatim>\<open>cb.run\<close> and the
  attributes \<^verbatim>\<open>label="a" label="b"\<close>, holding the given code.
\<close>

definition duplicate_label_node :: "string \<Rightarrow> pyval" where
  "duplicate_label_node code_text =
     PDict [(''t'', PStr ''CodeBlock''),
            (''c'', PList [PList [PStr [], PList [PStr ''cb.run''],
                                  PList [PList [PStr ''label'', PStr ''a''], PList [PStr ''label'', PStr ''b'']]],
                           PStr code_text])]"

text \<open>An execution that has produced nothing, and a layout that prints nothing, for
  closed examples.\<close>

definition no_results :: engine_results where
  "no_results = \<lparr>runtime_source_error = False, repl_lines = None, expr_lines = None, stdout_lines = None,
                  stderr_lines = None, rich_output = None\<rparr>"

definition plain_env :: layout_env where
  "plain_env = \<lparr>layout_output = (\<lambda>output format lines. []), splitlines_lf = (\<lambda>s. []),
                 rich_text_default_display = [], mime_map = []\<rparr>"

section \<open>Splicing the output into the tree (converters/pandoc.py)\<close>

text \<open>
  A chunk holds references to its node, to its parent node and to the list that contains the
  node, and the splice mutates the list and the parent in place; several chunks can share a
  list. So here the tree is a store of objects: a node list is a list of slots, each a
  reference to a node object or a node that the splicer has built (given by value, since
  nothing refers to it yet); a node object is a dict whose \<^verbatim>\<open>'c'\<close> is a reference to a list
  object or a value.
\<close>

datatype slot = NodeRef nat | NewNode pyval

datatype field = FVal pyval | FList nat

record tree_store =
  node_objs :: "nat \<Rightarrow> (string \<times> field) list option"
  list_objs :: "nat \<Rightarrow> slot list option"

text \<open>A chunk with the addresses of \<^verbatim>\<open>self.node\<close>, \<^verbatim>\<open>self.parent_node\<close> and
  \<^verbatim>\<open>self.parent_node_list\<close>; the index is the chunk's own \<^verbatim>\<open>parent_node_list_index\<close>.\<close>

record placed_chunk =
  the_chunk :: executed_chunk
  node_ref :: nat
  parent_ref :: nat
  list_ref :: nat

definition index_of :: "placed_chunk \<Rightarrow> nat" where
  "index_of pc = chunk_parent_node_list_index (the_chunk pc)"

text \<open>\<^verbatim>\<open>xs[index:index+1] = nodes\<close> (an index past the end appends) and \<^verbatim>\<open>xs[index] = node\<close>.\<close>

definition slice_assign :: "'a list \<Rightarrow> nat \<Rightarrow> 'a list \<Rightarrow> 'a list" where
  "slice_assign xs i new = take i xs @ new @ drop (Suc i) xs"

definition item_assign :: "'a list \<Rightarrow> nat \<Rightarrow> 'a \<Rightarrow> py_error + 'a list" where
  "item_assign xs i x = (if i < length xs then Inr (xs[i := x]) else Inl IndexError)"

definition div_node :: "string \<Rightarrow> pyval list \<Rightarrow> pyval" where
  "div_node cls contents = mk_node ''Div'' (PList [attr (PStr []) [PStr cls] [], PList contents])"

text \<open>The contents \<^verbatim>\<open>example_div_node['c']\<close> of the container that shows the markup of a chunk
  and its output.\<close>

definition example_div_contents :: "layout_env \<Rightarrow> bool \<Rightarrow> pyval list \<Rightarrow> pyval" where
  "example_div_contents env inl nodes =
     (let markup_node = code_node ''CodeBlock'' (attr (PStr []) [] [])
                          (layout_output env ''example_markup'' (PStr ''verbatim'') None);
          output_part =
            (if nodes \<noteq> []
             then [div_node ''exampleOutput'' (if inl then [mk_node ''Para'' (PList nodes)] else nodes)]
             else [])
      in PList [attr (PStr []) [PStr ''example''] [],
                PList ([div_node ''exampleMarkup'' [markup_node]] @ output_part)])"

text \<open>\<^verbatim>\<open>PandocCodeChunk.update_parent_node\<close>.\<close>

definition update_parent_node :: "layout_env \<Rightarrow> module_state \<Rightarrow> tree_store \<Rightarrow> placed_chunk \<Rightarrow> py_error + tree_store" where
  "update_parent_node env m st pc =
     (let ch = the_chunk pc in
      bindE (option_getitem m (options ch) ''example'') (\<lambda>example.
      bindE (output_nodes env m ch) (\<lambda>(nodes, ch').
      if \<not> py_truthy example then
        (case list_objs st (list_ref pc) of
           None \<Rightarrow> Inl Dangling
         | Some xs \<Rightarrow>
             Inr (st\<lparr>list_objs := (list_objs st)(list_ref pc \<mapsto> slice_assign xs (index_of pc) (map NewNode nodes))\<rparr>))
      else if truthy (inline ch) then
        (case node_objs st (parent_ref pc) of
           None \<Rightarrow> Inl Dangling
         | Some parent \<Rightarrow>
             Inr (st\<lparr>node_objs := (node_objs st)(parent_ref pc \<mapsto>
                         AList.update ''c'' (FVal (example_div_contents env True nodes))
                           (AList.update ''t'' (FVal (PStr ''Div'')) parent))\<rparr>))
      else
        (case list_objs st (list_ref pc) of
           None \<Rightarrow> Inl Dangling
         | Some xs \<Rightarrow>
             bindE (item_assign xs (index_of pc) (NewNode (mk_node ''Div'' (example_div_contents env False nodes))))
               (\<lambda>xs'. Inr (st\<lparr>list_objs := (list_objs st)(list_ref pc \<mapsto> xs')\<rparr>))))))"

text \<open>
  The loop \<^verbatim>\<open>for code_chunk in reversed(self.code_chunks): code_chunk.update_parent_node()\<close> of
  \<^verbatim>\<open>_postprocess_code_chunks\<close>: \<open>splice_chunks\<close> runs over the chunks in the order given, and
  \<open>splice_code_chunks\<close> gives it the chunks reversed.
\<close>

fun splice_chunks :: "layout_env \<Rightarrow> module_state \<Rightarrow> tree_store \<Rightarrow> placed_chunk list \<Rightarrow> py_error + tree_store" where
  "splice_chunks env m st [] = Inr st"
| "splice_chunks env m st (pc # pcs) =
     (case update_parent_node env m st pc of Inl e \<Rightarrow> Inl e | Inr st' \<Rightarrow> splice_chunks env m st' pcs)"

definition splice_code_chunks :: "layout_env \<Rightarrow> module_state \<Rightarrow> tree_store \<Rightarrow> placed_chunk list \<Rightarrow> py_error + tree_store" where
  "splice_code_chunks env m st code_chunks = splice_chunks env m st (rev code_chunks)"

text \<open>
  A chunk finds its node: its parent node and its list are objects of the store, and the
  list holds, at the chunk's index, the reference to the chunk's node.
\<close>

definition finds_node :: "tree_store \<Rightarrow> placed_chunk \<Rightarrow> bool" where
  "finds_node st pc =
     (node_objs st (parent_ref pc) \<noteq> None \<and>
      (case list_objs st (list_ref pc) of
         None \<Rightarrow> False
       | Some xs \<Rightarrow> index_of pc < length xs \<and> xs ! index_of pc = NodeRef (node_ref pc)))"

text \<open>
  Discovery order: the walker yields the elements of one list by increasing index, so of two
  chunks in the same list the one discovered first has the smaller index.
\<close>

definition in_discovery_order :: "placed_chunk list \<Rightarrow> bool" where
  "in_discovery_order code_chunks =
     sorted_wrt (\<lambda>c d. list_ref c = list_ref d \<longrightarrow> index_of c < index_of d) code_chunks"

text \<open>
  A small tree for closed examples: a paragraph (object 1) whose inlines are the list object
  2, holding two inline chunks (objects 10 and 11) at the indices 0 and 1; each chunk shows
  nothing, so its output is the empty list of nodes.
\<close>

definition sample_chunk :: "nat \<Rightarrow> executed_chunk" where
  "sample_chunk i =
     with_results
       (code_chunk.extend
          ((scenario_chunk ''run'')\<lparr>options := [(''example'', OVal (PBool False)), (''show'', OVal (PDict []))]\<rparr>)
          (pandoc_code_chunk.fields (PDict scenario_node) (PDict []) (PList []) i (PStr []) (PList [PStr ''cb.run''])
             (PList []) (PStr []) [] [] None None))
       no_results"

definition sample_placed :: "nat \<Rightarrow> nat \<Rightarrow> placed_chunk" where
  "sample_placed a i = \<lparr>the_chunk = sample_chunk i, node_ref = a, parent_ref = 1, list_ref = 2\<rparr>"

definition sample_store :: tree_store where
  "sample_store =
     \<lparr>node_objs = [1 \<mapsto> [(''t'', FVal (PStr ''Para'')), (''c'', FList 2)],
                   10 \<mapsto> map (\<lambda>(k, v). (k, FVal v)) scenario_node,
                   11 \<mapsto> map (\<lambda>(k, v). (k, FVal v)) scenario_node],
      list_objs = [2 \<mapsto> [NodeRef 10, NodeRef 11]]\<rparr>"

section \<open>Theorems: freeze and thaw\<close>

lemma setitem_get_same: "dict_getitem (dict_setitem d k v) k = Inr v"
  by (simp add: dict_getitem_def dict_setitem_def update_conv')

lemma setitem_get_other: "k \<noteq> j \<Longrightarrow> dict_getitem (dict_setitem d k v) j = dict_getitem d j"
  by (simp add: dict_getitem_def dict_setitem_def update_conv')

lemma update_swap_present:
  "k \<noteq> j \<Longrightarrow> map_of d k = Some x \<Longrightarrow> map_of d j = Some y
     \<Longrightarrow> AList.update k v (AList.update j w d) = AList.update j w (AList.update k v d)"
  by (induction d) (auto split: if_splits)

lemma setitem_restore:
  assumes "map_of d ''t'' = Some t" "map_of d ''c'' = Some c"
  shows "dict_setitem (dict_setitem (dict_setitem (dict_setitem d ''t'' t1) ''c'' c1) ''t'' t) ''c'' c = d"
proof -
  have sw: "AList.update ''t'' t (AList.update ''c'' c1 (AList.update ''t'' t1 d))
          = AList.update ''c'' c1 (AList.update ''t'' t (AList.update ''t'' t1 d))"
    by (rule update_swap_present[where x = t1 and y = c]) (use assms in \<open>simp_all add: update_conv'\<close>)
  have "AList.update ''c'' c (AList.update ''t'' t (AList.update ''c'' c1 (AList.update ''t'' t1 d)))
      = AList.update ''c'' c (AList.update ''t'' t d)"
    unfolding sw by (simp only: update_last)
  also have "\<dots> = d" using assms by (simp add: update_triv update_conv')
  finally show ?thesis unfolding dict_setitem_def .
qed

text \<open>
  C1. A raw node is a dict at address \<open>a\<close> whose kind is \<open>RawBlock\<close> or \<open>RawInline\<close> and
  whose payload is the two-element list \<open>[fmt, content]\<close>. Freezing it succeeds and leaves, at
  the same address, a code-shaped node carrying the class \<open>codebraid--temp\<close>; no other object
  of the store changes. Thawing that node succeeds and gives back the original store: the dict
  at \<open>a\<close> has again the original kind, format and content (and every other key it had), and
  it is not selected as a frozen node any more.
\<close>

theorem freeze_thaw_identity:
  assumes "st a = Some node"
    and "map_of node ''t'' = Some (PStr k)"
    and "k = ''RawBlock'' \<or> k = ''RawInline''"
    and "map_of node ''c'' = Some (PList [fmt, content])"
  shows "\<exists>st1 node1. freeze_raw_node st a = Inr st1 \<and> st1 a = Some node1
           \<and> carries_marker node1 = Inr True
           \<and> (\<forall>b. b \<noteq> a \<longrightarrow> st1 b = st b)
           \<and> thaw_raw_node st1 a = Inr st
           \<and> carries_marker node = Inr False"
  using assms
  by (auto simp: freeze_raw_node_def thaw_raw_node_def freeze_node_def thaw_node_def bindE_def
      setitem_get_same setitem_get_other dict_getitem_def[of node] freeze_translation_def
      thaw_translation_def carries_marker_def Let_def setitem_restore)

theorem freeze_thaw_identity_witness:
  "\<exists>st1. freeze_raw_node (Map.empty(0 \<mapsto> [(''t'', PStr ''RawInline''), (''c'', PList [PStr ''html'', PStr ''<b>''])])) 0 = Inr st1
     \<and> thaw_raw_node st1 0
         = Inr (Map.empty(0 \<mapsto> [(''t'', PStr ''RawInline''), (''c'', PList [PStr ''html'', PStr ''<b>''])]))"
proof -
  let ?node = "[(''t'', PStr ''RawInline''), (''c'', PList [PStr ''html'', PStr ''<b>''])]"
  let ?st = "Map.empty(0 \<mapsto> ?node) :: node_store"
  have h1: "?st 0 = Some ?node" by simp
  have h2: "map_of ?node ''t'' = Some (PStr ''RawInline'')" by simp
  have h3: "''RawInline'' = ''RawBlock'' \<or> ''RawInline'' = ''RawInline''" by simp
  have h4: "map_of ?node ''c'' = Some (PList [PStr ''html'', PStr ''<b>''])" by simp
  from freeze_thaw_identity[of ?st 0 ?node "''RawInline''" "PStr ''html''" "PStr ''<b>''", OF h1 h2 h3 h4]
  show ?thesis by blast
qed

section \<open>Theorems: the tree walker\<close>

text \<open>
  C5. The walker's flag is meant to say whether the yielded node is inside a note. On the
  inlines \<open>[Note [Para [Str]], Code]\<close> of a paragraph, walked with \<^verbatim>\<open>in_note=False\<close>, the
  note itself is yielded with the flag false and its contents with the flag true, but the
  \<open>Code\<close> node that follows the note in the same list, at index 1, which is in no note, is
  yielded with the flag true as well: the \<^verbatim>\<open>Note\<close> branch assigns the loop's own variable.
\<close>

theorem walk_flag_after_note:
  "kinds_indices_flags (walk_node_list note_then_code (PDict [(''t'', PStr ''Para''), (''c'', note_then_code)]) None False False)
     = Inr [(PStr ''Note'', 0, False), (PStr ''Para'', 0, True), (PStr ''Str'', 0, True), (PStr ''Code'', 1, True)]"
  by (simp add: note_then_code_def kinds_indices_flags_def node_kind_def)

section \<open>Theorems: chunk options\<close>

lemma show_item_keeps: "map_of vp k = Some f \<Longrightarrow> map_of (fst (show_item inl key v (vp, ws) item)) k = Some f"
  by (auto simp: show_item_def update_conv' split: prod.splits sum.splits)

lemma show_items_keep:
  "map_of vp k = Some f \<Longrightarrow> map_of (fst (show_items inl key v (vp, ws) items)) k = Some f"
  unfolding show_items_def
proof (induction items arbitrary: vp ws)
  case Nil
  then show ?case by simp
next
  case (Cons item items)
  obtain vp' ws' where st: "show_item inl key v (vp, ws) item = (vp', ws')" by (cases "show_item inl key v (vp, ws) item")
  have "map_of vp' k = Some f" using show_item_keeps[OF Cons.prems, of inl key v ws item] st by simp
  from Cons.IH[OF this] show ?case by (simp add: st)
qed

lemma show_scenario_items:
  "show_items inl key v ([], ws) [''code'', ''stdout:raw'', ''stdout'']
     = ([(''code'', ''verbatim''), (''stdout'', ''raw'')], ws @ [duplicate_show_msg key v ''stdout''])"
  by (simp add: show_items_def show_item_def show_item_parts_def show_format_def split_first_def)

lemma split_scenario: "split_char CHR ''+'' (remove_spaces ''code+stdout:raw+stdout'') = [''code'', ''stdout:raw'', ''stdout'']"
  by (simp add: remove_spaces_def)

text \<open>
  C7 (as amended). Resolving \<^verbatim>\<open>show=code+stdout:raw+stdout\<close> records exactly one warning, the
  one for the duplicate \<open>stdout\<close>, and sets the show-spec to \<open>{code: verbatim, stdout: raw}\<close>.
  In general an item whose channel already has an entry in the show-spec being built is
  dropped with the duplicate warning, and an entry once made is never changed by a later item.
  The duplicate test looks at the accepted entries only, not at the items seen.
\<close>

theorem show_duplicate_dropped:
  "cb_option_show (ch, m, opts) ''show'' (PStr ''code+stdout:raw+stdout'')
     = Inr (ch\<lparr>source_warnings := source_warnings ch
                @ [duplicate_show_msg ''show'' (PStr ''code+stdout:raw+stdout'') ''stdout'']\<rparr>,
            m,
            AList.update ''show'' (OVal (PDict [(''code'', PStr ''verbatim''), (''stdout'', PStr ''raw'')])) opts)
   \<and> (map_of vp (fst (show_item_parts item)) = Some f \<longrightarrow>
        show_item inl key v (vp, ws) item = (vp, ws @ [duplicate_show_msg key v (fst (show_item_parts item))]))
   \<and> (map_of vp k = Some f \<longrightarrow> map_of (fst (show_items inl key v (vp, ws) items)) k = Some f)"
proof (intro conjI impI)
  show "cb_option_show (ch, m, opts) ''show'' (PStr ''code+stdout:raw+stdout'')
     = Inr (ch\<lparr>source_warnings := source_warnings ch
                @ [duplicate_show_msg ''show'' (PStr ''code+stdout:raw+stdout'') ''stdout'']\<rparr>,
            m,
            AList.update ''show'' (OVal (PDict [(''code'', PStr ''verbatim''), (''stdout'', PStr ''raw'')])) opts)"
    unfolding cb_option_show_def by (simp add: split_scenario show_scenario_items show_dict_def)
next
  assume "map_of vp (fst (show_item_parts item)) = Some f"
  then show "show_item inl key v (vp, ws) item = (vp, ws @ [duplicate_show_msg key v (fst (show_item_parts item))])"
    by (cases "show_item_parts item") (simp add: show_item_def)
next
  assume "map_of vp k = Some f"
  then show "map_of (fst (show_items inl key v (vp, ws) items)) k = Some f" by (rule show_items_keep)
qed

theorem show_duplicate_dropped_witness:
  "show_item (Some False) ''show'' (PStr ''code+code:verbatim'') ([(''code'', ''verbatim'')], []) ''code:verbatim''
     = ([(''code'', ''verbatim'')], [duplicate_show_msg ''show'' (PStr ''code+code:verbatim'') ''code''])
   \<and> map_of (fst (show_items (Some False) ''show'' (PStr ''code+code:verbatim'') ([(''code'', ''verbatim'')], [])
                      [''code:verbatim''])) ''code'' = Some ''verbatim''"
proof -
  have parts: "fst (show_item_parts ''code:verbatim'') = ''code''"
    by (simp add: show_item_parts_def split_first_def)
  have h: "map_of [(''code'', ''verbatim'')] (fst (show_item_parts ''code:verbatim'')) = Some ''verbatim''"
    by (simp add: parts)
  have h2: "map_of [(''code'', ''verbatim'')] ''code'' = Some ''verbatim''" by simp
  from show_duplicate_dropped[of undefined undefined undefined "[(''code'', ''verbatim'')]" "''code:verbatim''"
      "''verbatim''" "Some False" "''show''" "PStr ''code+code:verbatim''" "[]" "''code''" "[''code:verbatim'']"]
    h h2 parts
  show ?thesis by simp
qed

text \<open>
  The claim as stated fails where the first item for a channel is not accepted: for
  \<^verbatim>\<open>show=stdout:bogus+stdout:raw\<close> on a block chunk the first \<open>stdout\<close> item is dropped as
  invalid, the second one is stored, and no duplicate warning is recorded.
\<close>

theorem show_first_occurrence_counterexample:
  "map_sum id (\<lambda>(ch, m). (map_of (options ch) ''show'', source_warnings ch, source_errors ch))
     (CodeChunk_init initial_module_state [] [] (Some ''run'') (CodeStr ''x'')
        [(''show'', PStr ''stdout:bogus+stdout:raw'')] None None (Some False))
     = Inr (Some (OVal (PDict [(''stdout'', PStr ''raw'')])),
            [invalid_value_msg ''show'' (PStr ''stdout:bogus+stdout:raw'')], [])"
  by (simp add: CodeChunk_init_def initial_chunk_def initial_errors_def Let_def truthy_def code_lines_of_def
      splitlines_def cb_option_processors_def cb_option_show_def cb_default_options_def
      show_items_def show_item_def show_item_parts_def show_format_def split_first_def remove_spaces_def show_dict_def)

lemma init_no_options:
  "truthy inl \<or> code_lines_of code_in \<noteq> [] \<Longrightarrow>
   \<exists>ch. CodeChunk_init m e0 w0 cmd code_in [] src ln inl = Inr (ch, m)
      \<and> options ch = (if truthy inl then cb_default_inline_options else cb_default_options)"
  by (auto simp: CodeChunk_init_def)

lemma fresh_defaults:
  "options_value initial_module_state cb_default_options = declared_default_options"
  "options_value initial_module_state cb_default_inline_options = declared_default_inline_options"
  by (simp_all add: options_value_def cb_default_options_def cb_default_inline_options_def initial_module_state_def
      declared_default_options_def declared_default_inline_options_def show_contents_def show_dict_def)

text \<open>
  C3. In the module state that the source declares, a chunk with no options gets the declared
  default table (\<open>init_no_options\<close> with \<open>fresh_defaults\<close>). The copy of the default table is
  shallow, though: its \<^verbatim>\<open>'show'\<close> entry is the module-level dict itself, and \<^verbatim>\<open>hide\<close> removes
  keys from the dict that \<^verbatim>\<open>options['show']\<close> refers to. After a block chunk with
  \<^verbatim>\<open>hide=stdout\<close>, a second block chunk with no options resolves its show-spec to
  \<open>{code: verbatim, stderr: verbatim}\<close>, which is not the declared default.
\<close>

theorem defaults_after_hide:
  "(case CodeChunk_init initial_module_state [] [] (Some ''run'') (CodeStr ''x'') [(''hide'', PStr ''stdout'')] None None (Some False) of
      Inl e \<Rightarrow> False
    | Inr (ch1, m1) \<Rightarrow>
        (case CodeChunk_init m1 [] [] (Some ''run'') (CodeStr ''y'') [] None None (Some False) of
           Inl e \<Rightarrow> False
         | Inr (ch2, m2) \<Rightarrow>
             options_value m2 (options ch2)
               = [(''first_number'', PStr ''next''), (''lang'', PNone), (''line_numbers'', PBool True), (''session'', PNone),
                  (''show'', PDict [(''code'', PStr ''verbatim''), (''stderr'', PStr ''verbatim'')])]
             \<and> options_value m2 (options ch2) \<noteq> declared_default_options))"
  by (simp add: CodeChunk_init_def initial_chunk_def initial_errors_def Let_def truthy_def code_lines_of_def splitlines_def cb_option_processors_def
      cb_option_hide_def remove_spaces_def show_pop_def cb_default_options_def initial_module_state_def
      options_value_def show_contents_def show_dict_def declared_default_options_def)


lemma processor_appends:
  "cb_option_processors k (ch, m, opts) key v = Inr (ch', m', opts')
     \<Longrightarrow> (\<exists>es. source_errors ch' = source_errors ch @ es) \<and> inline ch' = inline ch
          \<and> source_name ch' = source_name ch \<and> source_start_line_number ch' = source_start_line_number ch"
  by (auto simp: cb_option_processors_def cb_option_hide_def cb_option_first_number_def cb_option_label_def
      cb_option_str_def cb_option_bool_def cb_option_show_def cb_option_unknown_def add_error_def add_warning_def Let_def
      split: if_splits pyval.splits sum.splits prod.splits)

lemma process_options_appends:
  "process_options (ch, m, opts) kvs = Inr (ch', m', opts')
     \<Longrightarrow> (\<exists>es. source_errors ch' = source_errors ch @ es) \<and> inline ch' = inline ch"
proof (induction kvs arbitrary: ch m opts)
  case Nil
  then show ?case by simp
next
  case (Cons kv kvs)
  obtain k v where kv: "kv = (k, v)" by (cases kv)
  from Cons.prems kv obtain ch1 m1 opts1 where
    s1: "cb_option_processors k (ch, m, opts) k v = Inr (ch1, m1, opts1)"
    and s2: "process_options (ch1, m1, opts1) kvs = Inr (ch', m', opts')"
    by (auto split: sum.splits)
  from processor_appends[OF s1] Cons.IH[OF s2] show ?case by auto
qed

lemma processor_total:
  "k \<noteq> ''hide'' \<Longrightarrow> \<exists>p'. cb_option_processors k p key v = Inr p'"
  by (cases p) (auto simp: cb_option_processors_def cb_option_first_number_def cb_option_label_def
      cb_option_str_def cb_option_bool_def cb_option_show_def cb_option_unknown_def
      split: pyval.splits prod.splits)

lemma process_options_total:
  "''hide'' \<notin> fst ` set kvs \<Longrightarrow> \<exists>p'. process_options p kvs = Inr p'"
proof (induction kvs arbitrary: p)
  case Nil
  show ?case by (cases p) simp
next
  case (Cons kv kvs)
  obtain k v where kv: "kv = (k, v)" by (cases kv)
  with Cons.prems have "k \<noteq> ''hide''" by auto
  from processor_total[OF this] obtain p' where "cb_option_processors k p k v = Inr p'" by blast
  moreover from Cons.prems have "''hide'' \<notin> fst ` set kvs" by auto
  ultimately show ?case using Cons.IH[of p'] kv by simp
qed

text \<open>
  C10. For a chunk constructed with a truthy \<^verbatim>\<open>inline\<close> whose code has more than one line: the
  constructor returns unless an option processor raises (only \<^verbatim>\<open>hide\<close> can), and the chunk it
  returns has the source error \<^verbatim>\<open>Inline code cannot be longer that 1 line\<close>. An executed Pandoc chunk
  with these fields and no cached output then has, as its output nodes, the single inline
  \<open>Code\<close> node of class \<open>sourceError\<close> that carries the error text, whatever the results of
  execution are.
\<close>

theorem inline_multiline_error:
  assumes "truthy inl" and "1 < length (code_lines_of code_in)"
  shows "(''hide'' \<notin> fst ` set opts \<longrightarrow> (\<exists>ch m'. CodeChunk_init m e0 w0 cmd code_in opts src ln inl = Inr (ch, m')))
       \<and> (\<forall>ch m'. CodeChunk_init m e0 w0 cmd code_in opts src ln inl = Inr (ch, m') \<longrightarrow>
            ''Inline code cannot be longer that 1 line'' \<in> set (source_errors ch)
            \<and> (\<forall>pch env. code_chunk.truncate pch = ch \<and> output_nodes_cache pch = None \<longrightarrow>
                 output_nodes env m' pch
                   = Inr (source_error_nodes pch, pch\<lparr>output_nodes_cache := Some (source_error_nodes pch)\<rparr>)
                 \<and> (\<exists>text. source_error_nodes pch
                       = [code_node ''Code'' (attr (PStr []) [PStr ''sourceError''] []) text])))"
proof (intro conjI impI allI)
  assume "''hide'' \<notin> fst ` set opts"
  from process_options_total[OF this]
  obtain p' where "process_options (initial_chunk e0 w0 cmd code_in src ln inl, m, cb_default_inline_options) opts = Inr p'"
    by blast
  with assms show "\<exists>ch m'. CodeChunk_init m e0 w0 cmd code_in opts src ln inl = Inr (ch, m')"
    by (cases p') (simp add: CodeChunk_init_def)
next
  fix ch m'
  assume init: "CodeChunk_init m e0 w0 cmd code_in opts src ln inl = Inr (ch, m')"
  let ?ch0 = "initial_chunk e0 w0 cmd code_in src ln inl"
  have ch0: "''Inline code cannot be longer that 1 line'' \<in> set (source_errors ?ch0)" "inline ?ch0 = inl"
    using assms by (simp_all add: initial_chunk_def initial_errors_def Let_def)
  from init assms obtain ch1 fo where
    po: "process_options (?ch0, m, cb_default_inline_options) opts = Inr (ch1, m', fo)"
    and ch: "ch = ch1\<lparr>options := fo\<rparr>"
    unfolding CodeChunk_init_def
    by (auto split: sum.splits prod.splits)
  from process_options_appends[OF po] ch0 ch
  have errs: "''Inline code cannot be longer that 1 line'' \<in> set (source_errors ch)" and inl: "inline ch = inl"
    by auto
  show "''Inline code cannot be longer that 1 line'' \<in> set (source_errors ch)" by (rule errs)
  fix pch :: "'a executed_chunk_scheme" and env
  assume h: "code_chunk.truncate pch = ch \<and> output_nodes_cache pch = None"
  then have se: "source_errors pch = source_errors ch" and i: "inline pch = inline ch"
    by (auto simp: code_chunk.truncate_def)
  from se errs have ne: "source_errors pch \<noteq> []" by auto
  show "output_nodes env m' pch
          = Inr (source_error_nodes pch, pch\<lparr>output_nodes_cache := Some (source_error_nodes pch)\<rparr>)"
    using h ne by (simp add: output_nodes_def)
  show "\<exists>text. source_error_nodes pch = [code_node ''Code'' (attr (PStr []) [PStr ''sourceError''] []) text]"
    using i inl assms(1) by (auto simp: source_error_nodes_def)
qed

theorem inline_multiline_error_witness:
  "\<exists>ch m'. CodeChunk_init initial_module_state [] [] (Some ''run'') (CodeLines [''a'', ''b'']) [] None None (Some True)
              = Inr (ch, m')
     \<and> ''Inline code cannot be longer that 1 line'' \<in> set (source_errors ch)"
proof -
  have h1: "truthy (Some True)" by (simp add: truthy_def)
  have h2: "1 < length (code_lines_of (CodeLines [''a'', ''b'']))" by (simp add: code_lines_of_def)
  have h3: "''hide'' \<notin> fst ` set ([] :: (string \<times> pyval) list)" by simp
  from inline_multiline_error[OF h1 h2, of "[]" initial_module_state "[]" "[]" "Some ''run''" None None] h3
  show ?thesis by blast
qed

section \<open>Theorems: output nodes\<close>

text \<open>
  C9 (as amended). Between two adjacent output nodes the loop inserts a separator exactly
  when at least one of the two is a raw node of the chunk's mode, or the chunk is inline and
  both are \<open>Code\<close> nodes; the separator is a \<open>Str\<close> node holding a space for an inline
  chunk and an empty \<open>Para\<close> for a block chunk, and it is placed between the two nodes in
  the result.
\<close>

theorem separator_inserted_iff:
  assumes "node_type_of a = Inr ta" and "node_type_of b = Inr tb"
  shows "\<exists>sep. separator inl t_code t_raw a b = Inr sep
           \<and> (sep \<noteq> [] \<longleftrightarrow> ta = PStr t_raw \<or> tb = PStr t_raw \<or> (inl \<and> ta = PStr t_code \<and> tb = PStr t_code))
           \<and> (sep = [] \<or> sep = [if inl then mk_node ''Str'' (PStr '' '') else mk_node ''Para'' (PList [])])
           \<and> (\<forall>rest out. separate inl t_code t_raw (b # rest) = Inr out
                 \<longrightarrow> separate inl t_code t_raw (a # b # rest) = Inr (a # sep @ out))"
  using assms by (auto simp: separator_def bindE_def)


theorem separator_inserted_iff_witness:
  "separator False ''CodeBlock'' ''RawBlock''
     (code_node ''CodeBlock'' (attr (PStr []) [] []) ''x'') (mk_node ''RawBlock'' (PList [PStr ''markdown'', PStr ''y'']))
     = Inr [mk_node ''Para'' (PList [])]"
proof -
  let ?a = "code_node ''CodeBlock'' (attr (PStr []) [] []) ''x''"
  let ?b = "mk_node ''RawBlock'' (PList [PStr ''markdown'', PStr ''y''])"
  have h1: "node_type_of ?a = Inr (PStr ''CodeBlock'')"
    by (simp add: node_type_of_def code_node_def mk_node_def dict_getitem_def)
  have h2: "node_type_of ?b = Inr (PStr ''RawBlock'')"
    by (simp add: node_type_of_def mk_node_def dict_getitem_def)
  from separator_inserted_iff[OF h1 h2, of False "''CodeBlock''" "''RawBlock''"]
  show ?thesis by auto
qed

text \<open>
  The claim as stated fails for a raw node next to a code node: a block chunk that shows its
  code and then raw standard output gets an empty paragraph between the two nodes, although
  the pair is neither two raw nodes nor two inline code nodes.
\<close>

theorem separator_raw_next_to_code_counterexample:
  "separate False ''CodeBlock'' ''RawBlock''
     [code_node ''CodeBlock'' (attr (PStr []) [] []) ''x'', mk_node ''RawBlock'' (PList [PStr ''markdown'', PStr ''y''])]
     = Inr [code_node ''CodeBlock'' (attr (PStr []) [] []) ''x'', mk_node ''Para'' (PList []),
            mk_node ''RawBlock'' (PList [PStr ''markdown'', PStr ''y''])]
   \<and> \<not> stated_separator_condition False ''CodeBlock'' ''RawBlock'' (PStr ''CodeBlock'') (PStr ''RawBlock'')"
  by (simp add: separator_def bindE_def node_type_of_def code_node_def mk_node_def dict_getitem_def
      stated_separator_condition_def)

section \<open>Theorems: the source-trace matcher\<close>

lemma skip_while_result:
  "skip_while mm c stack sk = Inr (occ, stack', sk')
     \<Longrightarrow> \<not> mm occ \<and> occ \<in> insert c (set stack) \<and> set stack' \<union> set sk' \<subseteq> insert c (set stack) \<union> set sk"
proof (induction mm c stack sk rule: skip_while.induct)
  case (1 mm c stack sk)
  show ?case
  proof (cases "mm c")
    case False
    with "1.prems" show ?thesis by (auto simp: skip_while.simps[of mm c])
  next
    case True
    with "1.prems" have ne: "stack \<noteq> []" by (auto simp: skip_while.simps[of mm c] split: if_splits)
    with True "1.prems" have "skip_while mm (last stack) (butlast stack) (sk @ [c]) = Inr (occ, stack', sk')"
      by (simp add: skip_while.simps[of mm c])
    from "1.IH"[OF True ne this]
    have ih: "\<not> mm occ" "occ \<in> insert (last stack) (set (butlast stack))"
      "set stack' \<union> set sk' \<subseteq> insert (last stack) (set (butlast stack)) \<union> set (sk @ [c])" by auto
    have "insert (last stack) (set (butlast stack)) = set stack"
      using ne by (metis append_butlast_last_id list.simps(15) rotate1.simps(2) set_rotate1)
    with ih show ?thesis by auto
  qed
qed

lemma skip_while_error: "skip_while mm c stack sk = Inl e \<Longrightarrow> e = IndexError"
proof (induction mm c stack sk rule: skip_while.induct)
  case (1 mm c stack sk)
  from "1.prems" show ?case
    by (subst (asm) skip_while.simps) (auto split: if_splits intro: "1.IH")
qed

lemma skip_while_exhaust:
  "mm c \<Longrightarrow> \<forall>s\<in>set stack. mm s \<Longrightarrow> skip_while mm c stack sk = Inl IndexError"
proof (induction mm c stack sk rule: skip_while.induct)
  case (1 mm c stack sk)
  show ?case
  proof (cases "stack = []")
    case True
    with "1.prems" show ?thesis by (simp add: skip_while.simps[of mm c])
  next
    case False
    then have l: "last stack \<in> set stack" and b: "set (butlast stack) \<subseteq> set stack"
      by (auto dest: in_set_butlastD)
    from "1.IH"[OF "1.prems"(1) False] l b "1.prems"
    have "skip_while mm (last stack) (butlast stack) (sk @ [c]) = Inl IndexError" by auto
    with "1.prems" False show ?thesis by (simp add: skip_while.simps[of mm c])
  qed
qed

lemma pop_matching_result:
  assumes "pop_matching mm stack sk = Inr (occ, stack', sk')"
  shows "\<not> mm occ \<and> occ \<in> set stack \<and> set (replay stack' sk') \<subseteq> set stack \<union> set sk"
proof -
  from assms have ne: "stack \<noteq> []" and sw: "skip_while mm (last stack) (butlast stack) sk = Inr (occ, stack', sk')"
    by (auto simp: pop_matching_def list_pop_def split: if_splits)
  have "insert (last stack) (set (butlast stack)) = set stack"
    using ne by (metis append_butlast_last_id list.simps(15) rotate1.simps(2) set_rotate1)
  with skip_while_result[OF sw] show ?thesis by (auto simp: replay_def)
qed

lemma pop_matching_error: "pop_matching mm stack sk = Inl e \<Longrightarrow> e = IndexError"
  by (auto simp: pop_matching_def list_pop_def split: if_splits dest: skip_while_error)

lemma pop_matching_exhaust:
  assumes "\<forall>s\<in>set stack. mm s"
  shows "pop_matching mm stack sk = Inl IndexError"
proof (cases "stack = []")
  case True
  then show ?thesis by (simp add: pop_matching_def list_pop_def)
next
  case False
  then have "last stack \<in> set stack" "set (butlast stack) \<subseteq> set stack" by (auto dest: in_set_butlastD)
  with assms have "skip_while mm (last stack) (butlast stack) sk = Inl IndexError"
    by (intro skip_while_exhaust) auto
  with False show ?thesis by (simp add: pop_matching_def list_pop_def)
qed

lemma match_chunks_located:
  "match_chunks chunks stack = Inr chunks' \<Longrightarrow> set stack \<subseteq> S
     \<Longrightarrow> list_all2 (\<lambda>chunk chunk'. \<exists>s\<in>S. src_command s = command chunk \<and> chunk' = assign_location chunk s) chunks chunks'"
proof (induction chunks arbitrary: stack chunks')
  case Nil
  then show ?case by simp
next
  case (Cons chunk chunks)
  from Cons.prems(1) obtain s stack' sk rest where
    pm: "pop_matching (\<lambda>s. command chunk \<noteq> src_command s) stack [] = Inr (s, stack', sk)"
    and mc: "match_chunks chunks (replay stack' sk) = Inr rest"
    and res: "chunks' = assign_location chunk s # rest"
    by (auto split: sum.splits)
  from pop_matching_result[OF pm] Cons.prems(2)
  have s: "s \<in> S" "src_command s = command chunk" and sub: "set (replay stack' sk) \<subseteq> S" by auto
  from Cons.IH[OF mc sub] s res show ?case by auto
qed

lemma match_chunks_error: "match_chunks chunks stack = Inl e \<Longrightarrow> e = IndexError"
  by (induction chunks arbitrary: stack) (auto split: sum.splits dest: pop_matching_error)

lemma match_chunks_exhaust:
  "c \<in> set chunks \<Longrightarrow> \<forall>s\<in>set stack. src_command s \<noteq> command c \<Longrightarrow> match_chunks chunks stack = Inl IndexError"
proof (induction chunks arbitrary: stack)
  case Nil
  then show ?case by simp
next
  case (Cons chunk chunks)
  show ?case
  proof (cases "pop_matching (\<lambda>s. command chunk \<noteq> src_command s) stack []")
    case (Inl e)
    with pop_matching_error[OF Inl] show ?thesis by simp
  next
    case (Inr r)
    obtain s stack' sk where r: "r = (s, stack', sk)" by (cases r)
    from pop_matching_result[OF Inr[unfolded r]]
    have s: "s \<in> set stack" "src_command s = command chunk" and sub: "set (replay stack' sk) \<subseteq> set stack" by auto
    from s Cons.prems have "c \<noteq> chunk" by auto
    with Cons.prems have "c \<in> set chunks" by simp
    moreover from sub Cons.prems(2) have "\<forall>s\<in>set (replay stack' sk). src_command s \<noteq> command c" by auto
    ultimately have "match_chunks chunks (replay stack' sk) = Inl IndexError" by (rule Cons.IH)
    with Inr r show ?thesis by simp
  qed
qed

lemma consume_node_cb_subset:
  "consume_node_cb mm node_cb stack sk = Inr (stack', sk') \<Longrightarrow> set (replay stack' sk') \<subseteq> set stack \<union> set sk"
proof (induction node_cb arbitrary: stack sk)
  case Nil
  then show ?case by (auto simp: replay_def)
next
  case (Cons o1 node_cb)
  from Cons.prems obtain s stack1 sk1 where
    pm: "pop_matching (mm o1) stack sk = Inr (s, stack1, sk1)"
    and rest: "consume_node_cb mm node_cb stack1 sk1 = Inr (stack', sk')"
    by (auto split: sum.splits)
  from pop_matching_result[OF pm] have "set stack1 \<union> set sk1 \<subseteq> set stack \<union> set sk" by (auto simp: replay_def)
  with Cons.IH[OF rest] show ?case by auto
qed

lemma consume_inside_subset:
  "consume_inside mm enabled node_cb stack = Inr stack' \<Longrightarrow> set stack' \<subseteq> set stack"
  by (auto simp: consume_inside_def bindE_def split: if_splits sum.splits dest!: consume_node_cb_subset)

lemma locate_next_chunk_result:
  assumes "locate_next_chunk is_chunk st stack = Inr st'"
  shows "set (sources_cb st') \<subseteq> set stack"
    and "is_chunk \<Longrightarrow> \<exists>chunk s. chunk_iter st = chunk # chunk_iter st' \<and> s \<in> set stack \<and> \<not> chunk_mismatch chunk s
                         \<and> located st' = located st @ [assign_location chunk s]"
    and "\<not> is_chunk \<Longrightarrow> chunk_iter st' = chunk_iter st \<and> located st' = located st"
proof -
  show "\<not> is_chunk \<Longrightarrow> chunk_iter st' = chunk_iter st \<and> located st' = located st"
    using assms by (auto simp: locate_next_chunk_def)
  have A: "is_chunk \<Longrightarrow> set (sources_cb st') \<subseteq> set stack
             \<and> (\<exists>chunk s. chunk_iter st = chunk # chunk_iter st' \<and> s \<in> set stack \<and> \<not> chunk_mismatch chunk s
                         \<and> located st' = located st @ [assign_location chunk s])"
  proof -
    assume ic: is_chunk
    with assms obtain chunk chunks s stack' sk where
      ci: "chunk_iter st = chunk # chunks"
      and pm: "pop_matching (chunk_mismatch chunk) stack [] = Inr (s, stack', sk)"
      and st': "st' = st\<lparr>sources_cb := replay stack' sk, chunk_iter := chunks,
                      located := located st @ [assign_location chunk s]\<rparr>"
      by (auto simp: locate_next_chunk_def bindE_def split: list.splits sum.splits)
    from pop_matching_result[OF pm]
    have f: "\<not> chunk_mismatch chunk s" "s \<in> set stack" "set (replay stack' sk) \<subseteq> set stack" by auto
    have "set (sources_cb st') \<subseteq> set stack" using f st' by simp
    moreover have "chunk_iter st = chunk # chunk_iter st' \<and> s \<in> set stack \<and> \<not> chunk_mismatch chunk s
                         \<and> located st' = located st @ [assign_location chunk s]"
      using f ci st' by simp
    ultimately show ?thesis by blast
  qed
  from A show "is_chunk \<Longrightarrow> \<exists>chunk s. chunk_iter st = chunk # chunk_iter st' \<and> s \<in> set stack \<and> \<not> chunk_mismatch chunk s
                         \<and> located st' = located st @ [assign_location chunk s]" by blast
  show "set (sources_cb st') \<subseteq> set stack"
  proof (cases is_chunk)
    case True
    with A show ?thesis by blast
  next
    case False
    with assms show ?thesis by (auto simp: locate_next_chunk_def)
  qed
qed

lemma drop_source_subset: "set (drop_source n stack) \<subseteq> set stack"
  by (auto simp: drop_source_def dest: set_dropWhileD)

lemma starts_with_Code_not_Raw:
  assumes "starts_with ''Code'' t"
  shows "\<not> starts_with ''Raw'' t"
proof -
  from assms have c: "take (length ''Code'') t = ''Code''" by (simp only: starts_with_def)
  have "take (length ''Raw'') t = take (length ''Raw'') (take (length ''Code'') t)" by simp
  also have "\<dots> = take (length ''Raw'') ''Code''" by (simp only: c)
  also have "\<dots> = ''Cod''" by simp
  finally have "take (length ''Raw'') t = ''Cod''" .
  then show ?thesis unfolding starts_with_def by simp
qed

lemma match_node_result:
  assumes "match_node commands single st (node, is_chunk) = Inr (st', node')"
    and "is_chunk \<longrightarrow> (\<exists>t. node_type_str node = Inr t \<and> starts_with ''Code'' t)"
  shows "set (sources_cb st') \<subseteq> set (sources_cb st)"
    and "is_chunk \<Longrightarrow> \<exists>chunk s. chunk_iter st = chunk # chunk_iter st' \<and> s \<in> set (sources_cb st)
                         \<and> \<not> chunk_mismatch chunk s \<and> located st' = located st @ [assign_location chunk s]"
    and "\<not> is_chunk \<Longrightarrow> chunk_iter st' = chunk_iter st \<and> located st' = located st"
proof -
  from assms(1) obtain node_type eof where
    nt: "node_type_str node = Inr node_type"
    and eof: "(if single = None \<and> starts_with ''Raw'' node_type then is_eof_comment node else Inr False) = Inr eof"
    by (auto simp: match_node_def bindE_def split: sum.splits)
  have A: "set (sources_cb st') \<subseteq> set (sources_cb st)
      \<and> (is_chunk \<longrightarrow> (\<exists>chunk s. chunk_iter st = chunk # chunk_iter st' \<and> s \<in> set (sources_cb st)
                         \<and> \<not> chunk_mismatch chunk s \<and> located st' = located st @ [assign_location chunk s]))
      \<and> (\<not> is_chunk \<longrightarrow> chunk_iter st' = chunk_iter st \<and> located st' = located st)"
  proof (cases eof)
    case True
    with eof have raw: "starts_with ''Raw'' node_type" by (auto split: if_splits)
    with assms(2) nt have nc: "\<not> is_chunk" by (auto dest: starts_with_Code_not_Raw)
    from assms(1) nt eof True obtain cur names where
      "st' = st\<lparr>source_names_stack := names, sources_cb := drop_source cur (sources_cb st)\<rparr>"
      by (auto simp: match_node_def bindE_def split: sum.splits prod.splits)
    with nc show ?thesis by (auto dest: subsetD[OF drop_source_subset])
  next
    case False
    from assms(1) nt eof False obtain src_text stack1 st2 stack3 where
      c1: "consume_inside inline_mismatch (\<not> ends_with ''Block'' node_type) (find_cb_command commands src_text) (sources_cb st) = Inr stack1"
      and c2: "locate_next_chunk is_chunk st stack1 = Inr st2"
      and c3: "consume_inside block_mismatch (ends_with ''Block'' node_type) (find_cb_command commands src_text) (sources_cb st2) = Inr stack3"
      and st': "st' = st2\<lparr>sources_cb := stack3\<rparr>"
      by (auto simp: match_node_def bindE_def Let_def split: sum.splits prod.splits)
    from consume_inside_subset[OF c1] consume_inside_subset[OF c3] locate_next_chunk_result[OF c2] st'
    show ?thesis by auto blast
  qed
  from A show "set (sources_cb st') \<subseteq> set (sources_cb st)" by blast
  from A show "is_chunk \<Longrightarrow> \<exists>chunk s. chunk_iter st = chunk # chunk_iter st' \<and> s \<in> set (sources_cb st)
                         \<and> \<not> chunk_mismatch chunk s \<and> located st' = located st @ [assign_location chunk s]" by blast
  from A show "\<not> is_chunk \<Longrightarrow> chunk_iter st' = chunk_iter st \<and> located st' = located st" by blast
qed

lemma match_nodes_result:
  "match_nodes commands single st tagged = Inr (st', nodes') \<Longrightarrow> code_tagged tagged \<Longrightarrow> set (sources_cb st) \<subseteq> S
     \<Longrightarrow> \<exists>taken new. chunk_iter st = taken @ chunk_iter st' \<and> located st' = located st @ new
           \<and> length taken = length (filter snd tagged)
           \<and> list_all2 (\<lambda>chunk chunk'. \<exists>s\<in>S. \<not> chunk_mismatch chunk s \<and> chunk' = assign_location chunk s) taken new"
proof (induction tagged arbitrary: st nodes')
  case Nil
  then show ?case by simp
next
  case (Cons tg tagged)
  obtain node is_chunk where tg: "tg = (node, is_chunk)" by (cases tg)
  from Cons.prems(1) tg obtain st1 node1 rest where
    m1: "match_node commands single st (node, is_chunk) = Inr (st1, node1)"
    and m2: "match_nodes commands single st1 tagged = Inr (st', rest)"
    by (auto split: sum.splits)
  from Cons.prems(2) tg have ct: "is_chunk \<longrightarrow> (\<exists>t. node_type_str node = Inr t \<and> starts_with ''Code'' t)"
    and ct': "code_tagged tagged" by (auto simp: code_tagged_def)
  note r = match_node_result[OF m1 ct]
  from r(1) Cons.prems(3) have sub: "set (sources_cb st1) \<subseteq> S" by auto
  from Cons.IH[OF m2 ct' sub] obtain taken new where
    ih: "chunk_iter st1 = taken @ chunk_iter st'" "located st' = located st1 @ new"
        "length taken = length (filter snd tagged)"
        "list_all2 (\<lambda>chunk chunk'. \<exists>s\<in>S. \<not> chunk_mismatch chunk s \<and> chunk' = assign_location chunk s) taken new"
    by blast
  show ?case
  proof (cases is_chunk)
    case True
    from r(2)[OF True] obtain chunk s where
      c: "chunk_iter st = chunk # chunk_iter st1" "s \<in> set (sources_cb st)" "\<not> chunk_mismatch chunk s"
         "located st1 = located st @ [assign_location chunk s]" by blast
    have "chunk_iter st = (chunk # taken) @ chunk_iter st'" using c ih by simp
    moreover have "located st' = located st @ (assign_location chunk s # new)" using c ih by simp
    moreover have "length (chunk # taken) = length (filter snd (tg # tagged))" using ih tg True by simp
    moreover have "list_all2 (\<lambda>chunk chunk'. \<exists>s\<in>S. \<not> chunk_mismatch chunk s \<and> chunk' = assign_location chunk s)
                     (chunk # taken) (assign_location chunk s # new)"
      using ih c Cons.prems(3) by auto
    ultimately show ?thesis by blast
  next
    case False
    from r(3)[OF False] ih tg False show ?thesis
      by (intro exI[of _ taken] exI[of _ new]) auto
  qed
qed

lemma skip_while_length:
  "skip_while mm c stack sk = Inr (occ, stack', sk') \<Longrightarrow> length stack' + length sk' = length stack + length sk"
proof (induction mm c stack sk rule: skip_while.induct)
  case (1 mm c stack sk)
  show ?case
  proof (cases "mm c")
    case False
    with "1.prems" show ?thesis by (auto simp: skip_while.simps[of mm c])
  next
    case True
    with "1.prems" have ne: "stack \<noteq> []" by (auto simp: skip_while.simps[of mm c] split: if_splits)
    with True "1.prems" have "skip_while mm (last stack) (butlast stack) (sk @ [c]) = Inr (occ, stack', sk')"
      by (simp add: skip_while.simps[of mm c])
    from "1.IH"[OF True ne this] ne show ?thesis by (cases stack rule: rev_cases) auto
  qed
qed

lemma pop_matching_length:
  "pop_matching mm stack sk = Inr (occ, stack', sk') \<Longrightarrow> length (replay stack' sk') + 1 = length stack + length sk"
  by (cases stack rule: rev_cases)
     (auto simp: pop_matching_def list_pop_def replay_def split: if_splits dest!: skip_while_length)

lemma consume_node_cb_length:
  "consume_node_cb mm node_cb stack sk = Inr (stack', sk') \<Longrightarrow> length (replay stack' sk') \<le> length stack + length sk"
proof (induction node_cb arbitrary: stack sk)
  case Nil
  then show ?case by (auto simp: replay_def)
next
  case (Cons o1 node_cb)
  from Cons.prems obtain s stack1 sk1 where
    pm: "pop_matching (mm o1) stack sk = Inr (s, stack1, sk1)"
    and rest: "consume_node_cb mm node_cb stack1 sk1 = Inr (stack', sk')"
    by (auto split: sum.splits)
  from pop_matching_length[OF pm] Cons.IH[OF rest] show ?case by (auto simp: replay_def)
qed

lemma consume_inside_length:
  "consume_inside mm enabled node_cb stack = Inr stack' \<Longrightarrow> length stack' \<le> length stack"
  by (auto simp: consume_inside_def bindE_def split: if_splits sum.splits dest!: consume_node_cb_length)

lemma locate_next_chunk_length:
  "locate_next_chunk is_chunk st stack = Inr st' \<Longrightarrow> length (sources_cb st') + (if is_chunk then 1 else 0) = length stack"
  by (auto simp: locate_next_chunk_def bindE_def split: if_splits list.splits sum.splits dest!: pop_matching_length)

lemma drop_source_length: "length (drop_source n stack) \<le> length stack"
  unfolding drop_source_def by (metis length_dropWhile_le length_rev)

lemma match_node_length:
  assumes "match_node commands single st (node, is_chunk) = Inr (st', node')"
    and "is_chunk \<longrightarrow> (\<exists>t. node_type_str node = Inr t \<and> starts_with ''Code'' t)"
  shows "length (sources_cb st') + (if is_chunk then 1 else 0) \<le> length (sources_cb st)"
proof -
  from assms(1) obtain node_type eof where
    nt: "node_type_str node = Inr node_type"
    and eof: "(if single = None \<and> starts_with ''Raw'' node_type then is_eof_comment node else Inr False) = Inr eof"
    by (auto simp: match_node_def bindE_def split: sum.splits)
  show ?thesis
  proof (cases eof)
    case True
    with eof have raw: "starts_with ''Raw'' node_type" by (auto split: if_splits)
    with assms(2) nt have nc: "\<not> is_chunk" by (auto dest: starts_with_Code_not_Raw)
    from assms(1) nt eof True obtain cur names where
      "st' = st\<lparr>source_names_stack := names, sources_cb := drop_source cur (sources_cb st)\<rparr>"
      by (auto simp: match_node_def bindE_def split: sum.splits prod.splits)
    with nc show ?thesis by (simp add: drop_source_length)
  next
    case False
    from assms(1) nt eof False obtain src_text stack1 st2 stack3 where
      c1: "consume_inside inline_mismatch (\<not> ends_with ''Block'' node_type) (find_cb_command commands src_text) (sources_cb st) = Inr stack1"
      and c2: "locate_next_chunk is_chunk st stack1 = Inr st2"
      and c3: "consume_inside block_mismatch (ends_with ''Block'' node_type) (find_cb_command commands src_text) (sources_cb st2) = Inr stack3"
      and st': "st' = st2\<lparr>sources_cb := stack3\<rparr>"
      by (auto simp: match_node_def bindE_def Let_def split: sum.splits prod.splits)
    from consume_inside_length[OF c1] consume_inside_length[OF c3] locate_next_chunk_length[OF c2] st'
    show ?thesis by (auto split: if_splits)
  qed
qed

lemma match_nodes_length:
  "match_nodes commands single st tagged = Inr (st', nodes') \<Longrightarrow> code_tagged tagged
     \<Longrightarrow> length (sources_cb st') + length (filter snd tagged) \<le> length (sources_cb st)"
proof (induction tagged arbitrary: st nodes')
  case Nil
  then show ?case by simp
next
  case (Cons tg tagged)
  obtain node is_chunk where tg: "tg = (node, is_chunk)" by (cases tg)
  from Cons.prems(1) tg obtain st1 node1 rest where
    m1: "match_node commands single st (node, is_chunk) = Inr (st1, node1)"
    and m2: "match_nodes commands single st1 tagged = Inr (st', rest)"
    by (auto split: sum.splits)
  from Cons.prems(2) tg have ct: "is_chunk \<longrightarrow> (\<exists>t. node_type_str node = Inr t \<and> starts_with ''Code'' t)"
    and ct': "code_tagged tagged" by (auto simp: code_tagged_def)
  from match_node_length[OF m1 ct] Cons.IH[OF m2 ct'] tg show ?case by (auto split: if_splits)
qed

lemma in_codebraid_node_set_Code:
  "in_codebraid_node_set node = Inr True \<Longrightarrow> \<exists>t. node_type_str node = Inr t \<and> starts_with ''Code'' t"
  by (auto simp: in_codebraid_node_set_def bindE_def split: sum.splits if_splits)

lemma tag_nodes_tagged:
  "tag_nodes nodes = Inr tagged \<Longrightarrow> code_tagged tagged \<and> map fst tagged = nodes"
proof (induction nodes arbitrary: tagged)
  case Nil
  then show ?case by (simp add: code_tagged_def)
next
  case (Cons node nodes)
  from Cons.prems obtain is_chunk rest where
    f: "in_codebraid_node_set node = Inr is_chunk" and r: "tag_nodes nodes = Inr rest"
    and t: "tagged = (node, is_chunk) # rest"
    by (auto split: sum.splits)
  from Cons.IH[OF r] have "code_tagged rest" "map fst rest = nodes" by auto
  moreover have "is_chunk \<longrightarrow> (\<exists>t. node_type_str node = Inr t \<and> starts_with ''Code'' t)"
    using f by (cases is_chunk) (auto dest: in_codebraid_node_set_Code)
  ultimately show ?case using t by (simp add: code_tagged_def)
qed

lemma locate_chunks_result:
  assumes "locate_chunks commands io_map single source_string sources code_chunks nodes = Inr (chunks', nodes')"
  shows "\<exists>matched unmatched located tagged.
           tag_nodes nodes = Inr tagged
         \<and> code_chunks = matched @ unmatched \<and> chunks' = located @ unmatched
         \<and> list_all2 (\<lambda>chunk chunk'. \<exists>s \<in> set (occurrences commands single source_string sources).
              src_command s = command chunk \<and> chunk' = assign_location chunk s) matched located
         \<and> (if length (occurrences commands single source_string sources) = length code_chunks
             then unmatched = [] else length matched = length (filter snd tagged))"
proof -
  let ?occ = "occurrences commands single source_string sources"
  let ?P = "\<lambda>chunk chunk'. \<exists>s \<in> set ?occ. src_command s = command chunk \<and> chunk' = assign_location chunk s"
  from assms obtain tagged where tg: "tag_nodes nodes = Inr tagged"
    by (auto simp: locate_chunks_def bindE_def split: sum.splits)
  from tag_nodes_tagged[OF tg] have ct: "code_tagged tagged" by simp
  show ?thesis
  proof (cases "length (rev ?occ) = length code_chunks")
    case True
    with assms tg have "match_chunks code_chunks (rev ?occ) = Inr chunks'"
      by (auto simp: locate_chunks_def Let_def bindE_def split: if_splits sum.splits)
    from match_chunks_located[OF this, of "set ?occ"] have "list_all2 ?P code_chunks chunks'" by simp
    with True tg show ?thesis
      by (intro exI[of _ code_chunks] exI[of _ "[]"] exI[of _ chunks'] exI[of _ tagged]) simp
  next
    case False
    with assms tg obtain st where
      mn: "match_nodes commands single
             \<lparr>sources_cb = rev ?occ,
              source_names_stack = rev (case single of Some name \<Rightarrow> [name] | None \<Rightarrow> map fst sources),
              chunk_iter = code_chunks, located = []\<rparr> tagged = Inr (st, nodes')"
      and res: "chunks' = located st @ chunk_iter st"
      by (auto simp: locate_chunks_def Let_def bindE_def split: if_splits sum.splits prod.splits)
    from match_nodes_result[OF mn ct, of "set ?occ"] obtain taken new where
      t: "code_chunks = taken @ chunk_iter st" "located st = new" "length taken = length (filter snd tagged)"
         "list_all2 (\<lambda>chunk chunk'. \<exists>s\<in>set ?occ. \<not> chunk_mismatch chunk s \<and> chunk' = assign_location chunk s) taken new"
      by auto
    from t(4) have "list_all2 ?P taken new"
      by (rule list_all2_mono) (auto simp: chunk_mismatch_def)
    with t res tg False show ?thesis
      by (intro exI[of _ taken] exI[of _ "chunk_iter st"] exI[of _ new] exI[of _ tagged]) simp
  qed
qed

text \<open>
  C4. When the matcher returns, every chunk that it has matched to an occurrence of \<^verbatim>\<open>.cb.\<close>
  in the source text has been given that occurrence's source name, and a start line number
  that is the occurrence's line for an inline chunk and that line plus one for a block chunk;
  the occurrence has the chunk's command, and nothing else of the chunk changes. The
  matched chunks are a prefix of \<^verbatim>\<open>self.code_chunks\<close>, and the chunks after it are left as they
  were: with as many occurrences as chunks every chunk is matched, and otherwise as many
  chunks as there are nodes in \<^verbatim>\<open>codebraid_node_set\<close>. This covers both branches of the matcher.
\<close>

theorem matched_chunk_location:
  assumes "locate_chunks commands io_map single source_string sources code_chunks nodes = Inr (chunks', nodes')"
  shows "\<exists>matched unmatched located tagged.
           tag_nodes nodes = Inr tagged
         \<and> code_chunks = matched @ unmatched \<and> chunks' = located @ unmatched
         \<and> list_all2 (\<lambda>chunk chunk'. \<exists>s \<in> set (occurrences commands single source_string sources).
              src_command s = command chunk
              \<and> chunk' = chunk\<lparr>source_name := Some (src_name_of s),
                               source_start_line_number :=
                                 Some (if truthy (inline chunk) then int (src_line_number s)
                                       else int (src_line_number s) + 1)\<rparr>) matched located
         \<and> (if length (occurrences commands single source_string sources) = length code_chunks
             then unmatched = [] else length matched = length (filter snd tagged))"
  using locate_chunks_result[OF assms] by (simp add: assign_location_def)

lemma scenario_located:
  "locate_chunks [''code'', ''run''] False (Some ''<string>'') scenario_source [] [scenario_chunk ''run'']
       [scenario_node]
     = Inr ([(scenario_chunk ''run'')\<lparr>source_name := Some ''<string>'', source_start_line_number := Some 5\<rparr>],
            [scenario_node])"
  by code_simp

theorem matched_chunk_location_witness:
  "locate_chunks [''code'', ''run''] False (Some ''<string>'') scenario_source [] [scenario_chunk ''run'']
       [scenario_node]
     = Inr ([(scenario_chunk ''run'')\<lparr>source_name := Some ''<string>'', source_start_line_number := Some 5\<rparr>],
            [scenario_node])
   \<and> (\<exists>tagged. tag_nodes [scenario_node] = Inr tagged)"
proof -
  from matched_chunk_location[OF scenario_located]
  obtain tagged where "tag_nodes [scenario_node] = Inr tagged" by blast
  then have "\<exists>tagged. tag_nodes [scenario_node] = Inr tagged" by blast
  with scenario_located show ?thesis by (rule conjI)
qed

text \<open>
  Where the chunks are those of the nodes of the call (as many chunks as nodes in
  \<^verbatim>\<open>codebraid_node_set\<close>), a chunk without an occurrence of its command, or fewer occurrences
  than chunks, makes the matcher raise; with equal numbers of occurrences and chunks the
  exception is the \<^verbatim>\<open>IndexError\<close> of \<^verbatim>\<open>sources_cb.pop()\<close> on the empty stack.
\<close>

lemma unmatched_chunk_raises:
  assumes "tag_nodes nodes = Inr tagged"
    and "length (filter snd tagged) = length code_chunks"
    and "(\<exists>chunk\<in>set code_chunks. \<forall>s\<in>set (occurrences commands single source_string sources). src_command s \<noteq> command chunk)
         \<or> length (occurrences commands single source_string sources) < length code_chunks"
  shows "(\<exists>e. locate_chunks commands io_map single source_string sources code_chunks nodes = Inl e)
       \<and> (\<not> io_map \<and> length (occurrences commands single source_string sources) = length code_chunks
            \<longrightarrow> locate_chunks commands io_map single source_string sources code_chunks nodes = Inl IndexError)"
proof (intro conjI impI)
  let ?occ = "occurrences commands single source_string sources"
  let ?r = "locate_chunks commands io_map single source_string sources code_chunks nodes"
  show "\<exists>e. ?r = Inl e"
  proof (cases ?r)
    case (Inl e)
    then show ?thesis by blast
  next
    case (Inr r)
    obtain chunks' nodes' where r: "r = (chunks', nodes')" by (cases r)
    from locate_chunks_result[OF Inr[unfolded r]] obtain matched unmatched new tagged' where
      m0: "tag_nodes nodes = Inr tagged'"
      and m1: "code_chunks = matched @ unmatched"
      and m2: "chunks' = new @ unmatched"
      and m3: "list_all2 (\<lambda>chunk chunk'. \<exists>s \<in> set ?occ. src_command s = command chunk
            \<and> chunk' = assign_location chunk s) matched new"
      and m4: "if length ?occ = length code_chunks then unmatched = [] else length matched = length (filter snd tagged')"
      apply (elim exE conjE)
      apply (rule that)
          apply assumption+
      done
    from m0 assms(1) have tt: "tagged' = tagged" by simp
    have all: "matched = code_chunks"
    proof (cases "length ?occ = length code_chunks")
      case True
      with m4 have "unmatched = []" by simp
      with m1 show ?thesis by simp
    next
      case False
      with m4 tt assms(2) have "length matched = length code_chunks" by simp
      with m1 show ?thesis by simp
    qed
    have no1: "\<not> (\<exists>chunk\<in>set code_chunks. \<forall>s\<in>set ?occ. src_command s \<noteq> command chunk)"
    proof
      assume "\<exists>chunk\<in>set code_chunks. \<forall>s\<in>set ?occ. src_command s \<noteq> command chunk"
      then obtain chunk where c: "chunk \<in> set code_chunks" "\<forall>s\<in>set ?occ. src_command s \<noteq> command chunk" by blast
      from c(1) obtain i where i: "i < length code_chunks" "code_chunks ! i = chunk" by (auto simp: in_set_conv_nth)
      from m3 all i have "\<exists>s \<in> set ?occ. src_command s = command chunk" by (auto simp: list_all2_conv_all_nth)
      with c(2) show False by blast
    qed
    have no2: "\<not> length ?occ < length code_chunks"
    proof (cases "length (rev ?occ) = length code_chunks")
      case True
      then show ?thesis by simp
    next
      case False
      with Inr r assms(1) obtain st where
        mn: "match_nodes commands single
             \<lparr>sources_cb = rev ?occ,
              source_names_stack = rev (case single of Some name \<Rightarrow> [name] | None \<Rightarrow> map fst sources),
              chunk_iter = code_chunks, located = []\<rparr> tagged = Inr (st, nodes')"
        by (auto simp: locate_chunks_def Let_def bindE_def split: if_splits sum.splits prod.splits)
      from tag_nodes_tagged[OF assms(1)] have "code_tagged tagged" by simp
      from match_nodes_length[OF mn this] assms(2) show ?thesis by simp
    qed
    from no1 no2 assms(3) show ?thesis by blast
  qed
next
  let ?occ = "occurrences commands single source_string sources"
  assume a: "\<not> io_map \<and> length ?occ = length code_chunks"
  with assms(3) obtain chunk where c: "chunk \<in> set code_chunks" "\<forall>s\<in>set ?occ. src_command s \<noteq> command chunk"
    by auto
  from c have "match_chunks code_chunks (rev ?occ) = Inl IndexError"
    by (intro match_chunks_exhaust[of chunk]) auto
  with a assms(1) show "locate_chunks commands io_map single source_string sources code_chunks nodes = Inl IndexError"
    by (simp add: locate_chunks_def Let_def bindE_def)
qed

lemma unmatched_command_raises:
  "locate_chunks [''code'', ''run''] False (Some ''<string>'') scenario_source [] [scenario_chunk ''code'']
       [scenario_node] = Inl IndexError"
  by code_simp

text \<open>
  C6. The matcher is written for the chunks of the nodes it walks, but \<^verbatim>\<open>self.code_chunks\<close>
  holds the chunks of every source processed so far. With \<^verbatim>\<open>pandoc_file_scope\<close> the second
  source \<^verbatim>\<open>b.md\<close> is processed with the first source's chunk still in the list: there is one
  occurrence for two chunks, the occurrence stack is used up by the first source's chunk,
  which is moved from line 5 of \<^verbatim>\<open>a.md\<close> to line 1 of \<^verbatim>\<open>b.md\<close>, the chunk of \<^verbatim>\<open>b.md\<close> gets no
  location, and the call returns normally.
\<close>

theorem second_source_relocates:
  "locate_chunks [''code'', ''run''] False (Some ''b.md'') second_source [] [first_source_chunk, scenario_chunk ''run'']
       [scenario_node]
     = Inr ([first_source_chunk\<lparr>source_name := Some ''b.md'', source_start_line_number := Some 1\<rparr>,
             scenario_chunk ''run''],
            [scenario_node])"
  by code_simp

section \<open>Theorems: chunk construction from a Pandoc node\<close>

lemma duplicate_label_preprocessing:
  assumes "''run'' \<in> set commands"
  shows "process_classes commands \<lparr>pre_errors = [], pre_warnings = [], pre_options = []\<rparr> 0 [PStr ''cb.run'']
           = Inr \<lparr>pre_errors = [], pre_warnings = [], pre_options = [(''codebraid_command'', PStr ''run'')]\<rparr>"
    and "process_kvpairs include_keywords
           \<lparr>pre_errors = [], pre_warnings = [], pre_options = [(''codebraid_command'', PStr ''run'')]\<rparr>
           [PList [PStr ''label'', PStr ''a''], PList [PStr ''label'', PStr ''b'']]
           = Inr \<lparr>pre_errors = [duplicate_attribute_msg ''label''], pre_warnings = [],
                  pre_options = [(''codebraid_command'', PStr ''run''), (''label'', PStr ''a'')]\<rparr>"
proof -
  have "''cb.run'' \<in> (\<lambda>k. ''cb.'' @ k) ` set commands" using assms by force
  then show "process_classes commands \<lparr>pre_errors = [], pre_warnings = [], pre_options = []\<rparr> 0 [PStr ''cb.run'']
           = Inr \<lparr>pre_errors = [], pre_warnings = [], pre_options = [(''codebraid_command'', PStr ''run'')]\<rparr>"
    by (simp add: class_processors_def line_numbers_names_def line_anchors_names_def class_codebraid_command_def
        has_option_def pre_set_def split_first_def)
  have nk: "''label'' \<notin> set (map (\<lambda>kw. ''include_'' @ kw) include_keywords)" by auto
  have kp: "kv_processors include_keywords ''label'' = (\<lambda>p. keyval_generic p)"
    using nk by (simp add: kv_processors_def display_keys_def display_names_def line_numbers_names_def
        line_anchors_names_def first_number_names_def)
  show "process_kvpairs include_keywords
           \<lparr>pre_errors = [], pre_warnings = [], pre_options = [(''codebraid_command'', PStr ''run'')]\<rparr>
           [PList [PStr ''label'', PStr ''a''], PList [PStr ''label'', PStr ''b'']]
           = Inr \<lparr>pre_errors = [duplicate_attribute_msg ''label''], pre_warnings = [],
                  pre_options = [(''codebraid_command'', PStr ''run''), (''label'', PStr ''a'')]\<rparr>"
    by (simp add: kp keyval_generic_def has_option_def namespace_keywords_def pre_set_def pre_error_def)
qed

lemma duplicate_label_base:
  assumes "splitlines code_text \<noteq> []"
  shows "\<exists>ch. CodeChunk_init m [duplicate_attribute_msg ''label''] [] (Some ''run'') (CodeStr code_text)
                 [(''label'', PStr ''a'')] src_name src_line (Some False) = Inr (ch, m)
           \<and> source_errors ch = [duplicate_attribute_msg ''label''] \<and> source_warnings ch = []
           \<and> options ch = cb_default_options @ [(''label'', OVal (PStr ''a''))]
           \<and> inline ch = Some False \<and> command ch = Some ''run''
           \<and> source_name ch = src_name \<and> source_start_line_number ch = src_line"
  using assms
  by (simp add: CodeChunk_init_def truthy_def code_lines_of_def cb_option_processors_def cb_option_label_def
      cb_default_options_def initial_chunk_def initial_errors_def Let_def)


lemma duplicate_label_chunk:
  assumes "''run'' \<in> set commands" and "splitlines code_text \<noteq> []"
  shows "\<exists>ch. PandocCodeChunk_init commands include_keywords m (duplicate_label_node code_text)
                 parent parent_list parent_index src_name src_line = Inr (ch, m)
           \<and> source_errors ch = [duplicate_attribute_msg ''label''] \<and> source_warnings ch = []
           \<and> map_of (options ch) ''label'' = Some (OVal (PStr ''a''))
           \<and> (\<forall>env r. output_nodes env m (with_results ch r)
                          = Inr (source_error_nodes (with_results ch r),
                                 (with_results ch r)\<lparr>output_nodes_cache := Some (source_error_nodes (with_results ch r))\<rparr>))
           \<and> (\<forall>r. \<exists>text. source_error_nodes (with_results ch r)
                          = [code_node ''CodeBlock'' (attr (PStr []) [PStr ''sourceError''] []) text])"
proof -
  from duplicate_label_base[OF assms(2), of m src_name src_line] obtain ch0 where
    base: "CodeChunk_init m [duplicate_attribute_msg ''label''] [] (Some ''run'') (CodeStr code_text)
             [(''label'', PStr ''a'')] src_name src_line (Some False) = Inr (ch0, m)"
    and f: "source_errors ch0 = [duplicate_attribute_msg ''label'']" "source_warnings ch0 = []"
       "options ch0 = cb_default_options @ [(''label'', OVal (PStr ''a''))]"
       "inline ch0 = Some False" "command ch0 = Some ''run''"
    by blast
  let ?ch = "code_chunk.extend ch0
               (pandoc_code_chunk.fields (duplicate_label_node code_text) parent parent_list parent_index (PStr [])
                  (PList [PStr ''cb.run''])
                  (PList [PList [PStr ''label'', PStr ''a''], PList [PStr ''label'', PStr ''b'']])
                  (PStr []) [] [] None None)"
  have init: "PandocCodeChunk_init commands include_keywords m (duplicate_label_node code_text)
                 parent parent_list parent_index src_name src_line = Inr (?ch, m)"
    unfolding PandocCodeChunk_init_def
    by (simp add: duplicate_label_node_def node_getitem_def dict_getitem_def bindE_def unpack3_def py_iter_def
        duplicate_label_preprocessing[OF assms(1)] command_arg_def code_arg_of_def base f lang_classes_def
        cb_default_options_def py_truthy_def Let_def
        del: process_classes.simps process_kvpairs.simps)
  have e: "source_errors ?ch = [duplicate_attribute_msg ''label'']" "source_warnings ?ch = []"
    "options ?ch = cb_default_options @ [(''label'', OVal (PStr ''a''))]" "inline ?ch = Some False"
    using f by (simp_all add: code_chunk.extend_def pandoc_code_chunk.fields_def)
  have w: "\<And>r. source_errors (with_results ?ch r) = [duplicate_attribute_msg ''label'']
              \<and> inline (with_results ?ch r) = Some False \<and> output_nodes_cache (with_results ?ch r) = None"
    using f by (simp add: with_results_def pandoc_code_chunk.extend_def code_chunk.extend_def
        pandoc_code_chunk.fields_def executed_chunk.fields_def)
  have o: "\<And>env r. output_nodes env m (with_results ?ch r)
                          = Inr (source_error_nodes (with_results ?ch r),
                                 (with_results ?ch r)\<lparr>output_nodes_cache := Some (source_error_nodes (with_results ?ch r))\<rparr>)"
    using w by (simp add: output_nodes_def)
  have n: "\<And>r. \<exists>text. source_error_nodes (with_results ?ch r)
                          = [code_node ''CodeBlock'' (attr (PStr []) [PStr ''sourceError''] []) text]"
    using w by (auto simp: source_error_nodes_def truthy_def)
  have l: "map_of (options ?ch) ''label'' = Some (OVal (PStr ''a''))"
    using e by (simp add: cb_default_options_def)
  from init e l o n show ?thesis by blast
qed

text \<open>
  C8 (as amended). For a block chunk with the command class \<^verbatim>\<open>cb.run\<close> and the attributes
  \<^verbatim>\<open>label="a" label="b"\<close> (and code of at least one line), construction records exactly one
  diagnostic, the source error \<^verbatim>\<open>Duplicate "label" attribute for code chunk\<close>, and no warning;
  the resolved options map \<open>label\<close> to \<open>a\<close>; and, the chunk having a source error, its
  output is the error annotation: one \<open>CodeBlock\<close> node of class \<open>sourceError\<close>, whatever
  the execution engine has produced.
\<close>

theorem duplicate_label_is_error:
  assumes "''run'' \<in> set commands" and "splitlines code_text \<noteq> []"
  shows "\<exists>ch. PandocCodeChunk_init commands include_keywords m (duplicate_label_node code_text)
                 parent parent_list parent_index src_name src_line = Inr (ch, m)
           \<and> source_errors ch = [duplicate_attribute_msg ''label''] \<and> source_warnings ch = []
           \<and> map_of (options ch) ''label'' = Some (OVal (PStr ''a''))
           \<and> (\<forall>env r. output_nodes env m (with_results ch r)
                          = Inr (source_error_nodes (with_results ch r),
                                 (with_results ch r)\<lparr>output_nodes_cache := Some (source_error_nodes (with_results ch r))\<rparr>))
           \<and> (\<forall>r. \<exists>text. source_error_nodes (with_results ch r)
                          = [code_node ''CodeBlock'' (attr (PStr []) [PStr ''sourceError''] []) text])"
  using duplicate_label_chunk[OF assms] .

theorem duplicate_label_is_error_witness:
  "\<exists>ch. PandocCodeChunk_init [''code'', ''run''] [] initial_module_state (duplicate_label_node ''x'')
            (PDict []) (PList []) 0 None None = Inr (ch, initial_module_state)
      \<and> source_errors ch = [duplicate_attribute_msg ''label'']
      \<and> map_of (options ch) ''label'' = Some (OVal (PStr ''a''))"
proof -
  have h1: "''run'' \<in> set [''code'', ''run'']" by simp
  have h2: "splitlines ''x'' \<noteq> []" by (simp add: splitlines_def line_boundary_def)
  from duplicate_label_is_error[OF h1 h2, of "[]" initial_module_state "PDict []" "PList []" 0 None None]
  show ?thesis by blast
qed

text \<open>
  The claim as stated fails: for the code \<^verbatim>\<open>x\<close> the duplicate is recorded as a source error,
  not as a warning, and the output of the chunk is the error annotation.
\<close>

theorem duplicate_label_annotation_counterexample:
  "\<exists>ch. PandocCodeChunk_init [''code'', ''run''] [] initial_module_state (duplicate_label_node ''x'')
            (PDict []) (PList []) 0 None None = Inr (ch, initial_module_state)
      \<and> source_warnings ch = []
      \<and> source_errors ch = [duplicate_attribute_msg ''label'']
      \<and> map_sum id fst (output_nodes plain_env initial_module_state (with_results ch no_results))
          = Inr [code_node ''CodeBlock'' (attr (PStr []) [PStr ''sourceError''] [])
                   (source_error_message (with_results ch no_results) @ [CHR 0x0A] @ duplicate_attribute_msg ''label'')]"
proof -
  have h1: "''run'' \<in> set [''code'', ''run'']" by simp
  have h2: "splitlines ''x'' \<noteq> []" by (simp add: splitlines_def line_boundary_def)
  from duplicate_label_chunk[OF h1 h2, of "[]" initial_module_state "PDict []" "PList []" 0 None None]
  obtain ch where
    c: "PandocCodeChunk_init [''code'', ''run''] [] initial_module_state (duplicate_label_node ''x'')
            (PDict []) (PList []) 0 None None = Inr (ch, initial_module_state)"
       "source_errors ch = [duplicate_attribute_msg ''label'']" "source_warnings ch = []"
    and o: "\<forall>env r. output_nodes env initial_module_state (with_results ch r)
                          = Inr (source_error_nodes (with_results ch r),
                                 (with_results ch r)\<lparr>output_nodes_cache := Some (source_error_nodes (with_results ch r))\<rparr>)"
    and n: "\<forall>r. \<exists>text. source_error_nodes (with_results ch r)
                          = [code_node ''CodeBlock'' (attr (PStr []) [PStr ''sourceError''] []) text]"
    by blast
  have se: "source_errors (with_results ch no_results) = source_errors ch"
    by (simp add: with_results_def pandoc_code_chunk.extend_def)
  from n have blk: "\<not> truthy (inline (with_results ch no_results))"
    by (auto simp: source_error_nodes_def code_node_def mk_node_def split: if_splits)
  have "source_error_nodes (with_results ch no_results)
          = [code_node ''CodeBlock'' (attr (PStr []) [PStr ''sourceError''] [])
               (source_error_message (with_results ch no_results) @ [CHR 0x0A] @ duplicate_attribute_msg ''label'')]"
    using blk se c(2) by (simp add: source_error_nodes_def)
  with o c show ?thesis by simp
qed

section \<open>Theorems: splicing\<close>

lemma update_parent_node_keeps:
  assumes "update_parent_node env m st d = Inr st'"
    and "finds_node st c"
    and "list_ref d = list_ref c \<longrightarrow> index_of c < index_of d"
  shows "finds_node st' c"
proof -
  from assms(1) obtain example nodes ch' where
    ex: "option_getitem m (options (the_chunk d)) ''example'' = Inr example"
    and on: "output_nodes env m (the_chunk d) = Inr (nodes, ch')"
    by (auto simp: update_parent_node_def bindE_def Let_def split: sum.splits)
  from assms(2) obtain xs where
    c: "node_objs st (parent_ref c) \<noteq> None" "list_objs st (list_ref c) = Some xs" "index_of c < length xs"
       "xs ! index_of c = NodeRef (node_ref c)"
    by (auto simp: finds_node_def split: option.splits)
  consider (plain) "\<not> py_truthy example"
    | (inl) "py_truthy example" "truthy (inline (the_chunk d))"
    | (block) "py_truthy example" "\<not> truthy (inline (the_chunk d))" by blast
  then show ?thesis
  proof cases
    case plain
    with assms(1) ex on obtain ys where
      ys: "list_objs st (list_ref d) = Some ys"
      and st': "st' = st\<lparr>list_objs := (list_objs st)(list_ref d \<mapsto> slice_assign ys (index_of d) (map NewNode nodes))\<rparr>"
      by (auto simp: update_parent_node_def bindE_def Let_def split: option.splits)
    show ?thesis
    proof (cases "list_ref d = list_ref c")
      case True
      with assms(3) have lt: "index_of c < index_of d" by simp
      from True ys c have "ys = xs" by simp
      with lt c have "index_of c < length (slice_assign ys (index_of d) (map NewNode nodes))"
        "slice_assign ys (index_of d) (map NewNode nodes) ! index_of c = NodeRef (node_ref c)"
        by (auto simp: slice_assign_def nth_append)
      with True st' c show ?thesis by (simp add: finds_node_def)
    next
      case False
      with st' c show ?thesis by (simp add: finds_node_def)
    qed
  next
    case inl
    with assms(1) ex on obtain parent where
      st': "st' = st\<lparr>node_objs := (node_objs st)(parent_ref d \<mapsto> parent)\<rparr>"
      by (auto simp: update_parent_node_def bindE_def Let_def split: option.splits)
    with c show ?thesis by (simp add: finds_node_def)
  next
    case block
    with assms(1) ex on obtain ys x where
      ys: "list_objs st (list_ref d) = Some ys" "index_of d < length ys"
      and st': "st' = st\<lparr>list_objs := (list_objs st)(list_ref d \<mapsto> ys[index_of d := x])\<rparr>"
      by (auto simp: update_parent_node_def bindE_def Let_def item_assign_def split: option.splits if_splits)
    show ?thesis
    proof (cases "list_ref d = list_ref c")
      case True
      with assms(3) have lt: "index_of c < index_of d" by simp
      from True ys c have "ys = xs" by simp
      with lt c True st' show ?thesis by (simp add: finds_node_def)
    next
      case False
      with st' c show ?thesis by (simp add: finds_node_def)
    qed
  qed
qed

lemma splice_keeps:
  "splice_chunks env m st ds = Inr st' \<Longrightarrow> finds_node st c
     \<Longrightarrow> \<forall>d\<in>set ds. list_ref d = list_ref c \<longrightarrow> index_of c < index_of d \<Longrightarrow> finds_node st' c"
proof (induction ds arbitrary: st)
  case Nil
  then show ?case by simp
next
  case (Cons d ds)
  from Cons.prems(1) obtain st1 where
    u: "update_parent_node env m st d = Inr st1" and s: "splice_chunks env m st1 ds = Inr st'"
    by (auto split: sum.splits)
  from update_parent_node_keeps[OF u Cons.prems(2)] Cons.prems(3) have "finds_node st1 c" by simp
  from Cons.IH[OF s this] Cons.prems(3) show ?case by simp
qed

lemma splice_append:
  "splice_chunks env m st (xs @ ys) = (case splice_chunks env m st xs of Inl e \<Rightarrow> Inl e | Inr st' \<Rightarrow> splice_chunks env m st' ys)"
  by (induction xs arbitrary: st) (auto split: sum.splits)

lemma finds_node_no_position_error:
  assumes "finds_node st c" and "update_parent_node env m st c = Inl e"
  shows "option_getitem m (options (the_chunk c)) ''example'' = Inl e \<or> output_nodes env m (the_chunk c) = Inl e"
  using assms
  by (auto simp: update_parent_node_def bindE_def Let_def finds_node_def item_assign_def
      split: sum.splits option.splits if_splits)

text \<open>
  C2. The chunks are spliced in the reverse of their discovery order. Take any chunk \<open>c\<close>
  of the document, the chunks \<open>earlier\<close> discovered before it and the chunks \<open>later\<close>
  discovered after it, each with any number of output nodes and in either display mode. If
  every chunk finds its node in the tree as walked, then in the store \<open>st'\<close> left by the
  splices of the later chunks, which is the store in which \<open>c\<close> is processed, \<open>c\<close> still
  finds its node: its parent and its list are there and the list holds the node at the
  recorded index. The splice of \<open>c\<close> itself can then fail only in reading the chunk's
  options or producing its output nodes, never for its position.
\<close>

theorem index_stability:
  assumes "in_discovery_order code_chunks"
    and "\<forall>c\<in>set code_chunks. finds_node st c"
    and "code_chunks = earlier @ c # later"
    and "splice_chunks env m st (rev later) = Inr st'"
  shows "finds_node st' c
       \<and> splice_code_chunks env m st code_chunks = splice_chunks env m st' (c # rev earlier)
       \<and> (\<forall>e. update_parent_node env m st' c = Inl e \<longrightarrow>
              option_getitem m (options (the_chunk c)) ''example'' = Inl e \<or> output_nodes env m (the_chunk c) = Inl e)"
proof (intro conjI allI impI)
  from assms(1,3) have "\<forall>d\<in>set later. list_ref c = list_ref d \<longrightarrow> index_of c < index_of d"
    by (simp add: in_discovery_order_def sorted_wrt_append)
  then have "\<forall>d\<in>set (rev later). list_ref d = list_ref c \<longrightarrow> index_of c < index_of d" by auto
  moreover from assms(2,3) have "finds_node st c" by simp
  ultimately show "finds_node st' c" using splice_keeps[OF assms(4)] by blast
  show "splice_code_chunks env m st code_chunks = splice_chunks env m st' (c # rev earlier)"
    using assms(3,4) by (simp add: splice_code_chunks_def splice_append)
  fix e
  assume "update_parent_node env m st' c = Inl e"
  with \<open>finds_node st' c\<close>
  show "option_getitem m (options (the_chunk c)) ''example'' = Inl e \<or> output_nodes env m (the_chunk c) = Inl e"
    by (rule finds_node_no_position_error)
qed

lemma sample_output: "output_nodes plain_env initial_module_state (sample_chunk i)
                        = Inr ([], (sample_chunk i)\<lparr>output_nodes_cache := Some []\<rparr>)"
  by (simp add: output_nodes_def sample_chunk_def with_results_def pandoc_code_chunk.extend_def code_chunk.extend_def
      pandoc_code_chunk.fields_def executed_chunk.fields_def scenario_chunk_def truthy_def bindE_def
      option_getitem_def Let_def)

lemma sample_example: "option_getitem initial_module_state (options (sample_chunk i)) ''example'' = Inr (PBool False)"
  by (simp add: sample_chunk_def with_results_def pandoc_code_chunk.extend_def code_chunk.extend_def
      pandoc_code_chunk.fields_def executed_chunk.fields_def scenario_chunk_def option_getitem_def)

lemma sample_index: "index_of (sample_placed a i) = i"
  by (simp add: index_of_def sample_placed_def sample_chunk_def with_results_def pandoc_code_chunk.extend_def
      code_chunk.extend_def pandoc_code_chunk.fields_def executed_chunk.fields_def)

lemma sample_refs:
  "the_chunk (sample_placed a i) = sample_chunk i" "node_ref (sample_placed a i) = a"
  "parent_ref (sample_placed a i) = 1" "list_ref (sample_placed a i) = 2"
  by (simp_all add: sample_placed_def)

lemma sample_splice:
  "splice_chunks plain_env initial_module_state sample_store [sample_placed 11 1]
     = Inr (sample_store\<lparr>list_objs := (list_objs sample_store)(2 \<mapsto> [NodeRef 10])\<rparr>)"
  by (simp add: update_parent_node_def sample_output sample_example sample_index sample_refs bindE_def py_truthy_def
      sample_store_def slice_assign_def Let_def)

theorem index_stability_witness:
  "finds_node (sample_store\<lparr>list_objs := (list_objs sample_store)(2 \<mapsto> [NodeRef 10])\<rparr>) (sample_placed 10 0)
   \<and> splice_chunks plain_env initial_module_state sample_store [sample_placed 11 1]
       = Inr (sample_store\<lparr>list_objs := (list_objs sample_store)(2 \<mapsto> [NodeRef 10])\<rparr>)"
proof -
  have h1: "in_discovery_order [sample_placed 10 0, sample_placed 11 1]"
    by (simp add: in_discovery_order_def sample_index)
  have h2: "\<forall>c\<in>set [sample_placed 10 0, sample_placed 11 1]. finds_node sample_store c"
    by (simp add: finds_node_def sample_index sample_refs sample_store_def)
  have h3: "[sample_placed 10 0, sample_placed 11 1] = [] @ sample_placed 10 0 # [sample_placed 11 1]" by simp
  have h4: "splice_chunks plain_env initial_module_state sample_store (rev [sample_placed 11 1])
              = Inr (sample_store\<lparr>list_objs := (list_objs sample_store)(2 \<mapsto> [NodeRef 10])\<rparr>)"
    using sample_splice by simp
  from index_stability[OF h1 h2 h3 h4] sample_splice show ?thesis by blast
qed

end
